theory Spec2Isabelle
  imports Main "HOL-Library.Sublist"
begin


section \<open>Data model (main.go, lines 21-40)\<close>

text \<open>
  The two configuration structs of the program. The destination configuration is a
  pointer that stays \<open>nil\<close> in export mode; where the orchestrator receives it, it is a
  \<open>DatabaseConfig option\<close>.
\<close>

record DatabaseConfig =
  Host :: string
  Port :: string
  Username :: string
  Password :: string
  Database :: string
  SSLMode :: string

record MigrationOptions =
  Mode :: string
  OutputDir :: string
  CreateBackup :: bool
  BackupDir :: string
  IncludeRoles :: bool
  IncludeData :: bool
  DryRun :: bool

text \<open>The command-line flags of \<open>main\<close> (lines 83-102), after parsing by the flag library.\<close>

record Flags =
  source_host :: string
  source_port :: string
  source_user :: string
  source_db :: string
  source_ssl :: string
  dest_host :: string
  dest_port :: string
  dest_user :: string
  dest_db :: string
  dest_ssl :: string
  mode :: string
  output_dir :: string
  dry_run :: bool
  include_roles :: bool
  no_backup :: bool

section \<open>The world outside the process\<close>

text \<open>
  Everything the program does is an interaction with the outside: the log, the file
  system, the process environment, subprocesses and database connections. Each
  interaction is an \<open>action\<close>; the trace of a run lists the actions in order, each with
  the error it returned (\<open>None\<close> for success). A Go \<open>error\<close> is its message, \<open>nil\<close> is
  \<open>None\<close>. \<open>Call\<close> and \<open>Return\<close> are marks, not effects: they record in the trace that an
  operation was entered, and what it returned, so that a statement can speak of an
  operation being invoked.
\<close>

datatype level = INFO | ERROR | SUCCESS | WARNING | DEBUG

datatype action =
    Log level string
  | Stdout string
  | MkdirAll string nat
  | WriteFile string string nat
  | Setenv string string
  | Unsetenv string
  | Run string "string list" "(string \<times> string) list"
  | SqlOpen string
  | Ping string
  | QueryRow string string "string list"
  | Exec string string "string list"
  | Close string
  | Call string
  | Return string "string option"

type_synonym event = "action \<times> string option"

record Time =
  Year :: nat
  Month :: nat
  Day :: nat
  Hour :: nat
  Minute :: nat
  Second :: nat

text \<open>
  The world: \<open>respond\<close> is the outside's answer to a fallible action after a given
  history (any pattern of failures is a choice of \<open>respond\<close>); \<open>clock\<close> is the wall
  clock, read by the length of the history; \<open>tty\<close> holds what the terminal reads will
  return (\<open>Inl\<close> a read error); \<open>environ\<close> is the process environment; \<open>dirs\<close> and \<open>files\<close>
  are the paths created by the run; \<open>catalog\<close> holds the databases that exist, as pairs
  of the connection string they are administered through and their name.
\<close>

record world =
  respond :: "event list \<Rightarrow> action \<Rightarrow> string option"
  clock :: "nat \<Rightarrow> Time"
  tty :: "(string + string) list"
  trace :: "event list"
  environ :: "(string \<times> string) list"
  dirs :: "string set"
  files :: "string set"
  catalog :: "(string \<times> string) set"

definition attempt :: "action \<Rightarrow> world \<Rightarrow> string option \<times> world" where
  "attempt a w = (let r = respond w (trace w) a in (r, w\<lparr>trace := trace w @ [(a, r)]\<rparr>))"

definition emit :: "action \<Rightarrow> world \<Rightarrow> world" where
  "emit a w = w\<lparr>trace := trace w @ [(a, None)]\<rparr>"

text \<open>An operation run between its two marks.\<close>

definition called ::
  "string \<Rightarrow> (world \<Rightarrow> string option \<times> world) \<Rightarrow> world \<Rightarrow> string option \<times> world" where
  "called name body w =
     (case body (emit (Call name) w) of (err, w') \<Rightarrow> (err, emit (Return name err) w'))"

subsection \<open>Logger (lines 42-73) and standard output\<close>

definition logger_Info :: "string \<Rightarrow> world \<Rightarrow> world" where
  "logger_Info msg w = emit (Log INFO msg) w"

definition logger_Error :: "string \<Rightarrow> world \<Rightarrow> world" where
  "logger_Error msg w = emit (Log ERROR msg) w"

definition logger_Success :: "string \<Rightarrow> world \<Rightarrow> world" where
  "logger_Success msg w = emit (Log SUCCESS msg) w"

definition logger_Warning :: "string \<Rightarrow> world \<Rightarrow> world" where
  "logger_Warning msg w = emit (Log WARNING msg) w"

definition fmt_Print :: "string \<Rightarrow> world \<Rightarrow> world" where
  "fmt_Print s w = emit (Stdout s) w"

subsection \<open>Library calls\<close>

text \<open>
  \<open>os.Setenv\<close> and \<open>os.Unsetenv\<close>: the source discards their error results; the
  environment is an association list with one entry for each variable.
\<close>

definition os_Setenv :: "string \<Rightarrow> string \<Rightarrow> world \<Rightarrow> world" where
  "os_Setenv k v w =
     (emit (Setenv k v) w)\<lparr>environ := (k, v) # filter (\<lambda>p. fst p \<noteq> k) (environ w)\<rparr>"

definition os_Unsetenv :: "string \<Rightarrow> world \<Rightarrow> world" where
  "os_Unsetenv k w = (emit (Unsetenv k) w)\<lparr>environ := filter (\<lambda>p. fst p \<noteq> k) (environ w)\<rparr>"

definition os_MkdirAll :: "string \<Rightarrow> nat \<Rightarrow> world \<Rightarrow> string option \<times> world" where
  "os_MkdirAll dir perm w =
     (case attempt (MkdirAll dir perm) w of
        (None, w') \<Rightarrow> (None, w'\<lparr>dirs := insert dir (dirs w')\<rparr>)
      | (Some err, w') \<Rightarrow> (Some err, w'))"

definition ioutil_WriteFile :: "string \<Rightarrow> string \<Rightarrow> nat \<Rightarrow> world \<Rightarrow> string option \<times> world" where
  "ioutil_WriteFile path content perm w =
     (case attempt (WriteFile path content perm) w of
        (None, w') \<Rightarrow> (None, w'\<lparr>files := insert path (files w')\<rparr>)
      | (Some err, w') \<Rightarrow> (Some err, w'))"

text \<open>
  \<open>exec.Command(name, args...).Run()\<close>: the subprocess inherits the environment of the
  moment, which the action records. \<open>outputs\<close> names the files the tool is told to write
  (the \<open>-f\<close> target of \<open>pg_dump\<close>); they exist once the tool has succeeded.
\<close>

definition cmd_Run :: "string \<Rightarrow> string list \<Rightarrow> string list \<Rightarrow> world \<Rightarrow> string option \<times> world" where
  "cmd_Run name args outputs w =
     (case attempt (Run name args (environ w)) w of
        (None, w') \<Rightarrow> (None, w'\<lparr>files := files w' \<union> set outputs\<rparr>)
      | (Some err, w') \<Rightarrow> (Some err, w'))"

text \<open>
  \<open>database/sql\<close>: a handle is its connection string. \<open>db_QueryRow_Scan\<close> reads one
  boolean, \<open>answer\<close> being what the server computes from its catalog; on an error the
  scanned variable keeps its zero value. \<open>db_Exec\<close> runs a statement whose effect on the
  catalog is \<open>effect\<close>.
\<close>

definition sql_Open :: "string \<Rightarrow> world \<Rightarrow> string option \<times> world" where
  "sql_Open connStr w = attempt (SqlOpen connStr) w"

definition db_Close :: "string \<Rightarrow> world \<Rightarrow> world" where
  "db_Close connStr w = emit (Close connStr) w"

definition db_Ping :: "string \<Rightarrow> world \<Rightarrow> string option \<times> world" where
  "db_Ping connStr w = attempt (Ping connStr) w"

definition db_QueryRow_Scan ::
  "string \<Rightarrow> string \<Rightarrow> string list \<Rightarrow> ((string \<times> string) set \<Rightarrow> bool) \<Rightarrow> world
     \<Rightarrow> (bool \<times> string option) \<times> world" where
  "db_QueryRow_Scan connStr query args answer w =
     (case attempt (QueryRow connStr query args) w of
        (None, w') \<Rightarrow> ((answer (catalog w'), None), w')
      | (Some err, w') \<Rightarrow> ((False, Some err), w'))"

definition db_Exec ::
  "string \<Rightarrow> string \<Rightarrow> string list \<Rightarrow> ((string \<times> string) set \<Rightarrow> (string \<times> string) set) \<Rightarrow> world
     \<Rightarrow> string option \<times> world" where
  "db_Exec connStr query args effect w =
     (case attempt (Exec connStr query args) w of
        (None, w') \<Rightarrow> (None, w'\<lparr>catalog := effect (catalog w')\<rparr>)
      | (Some err, w') \<Rightarrow> (Some err, w'))"

text \<open>A read from the terminal takes the next prepared input; none left is end of file.\<close>

definition read_tty :: "world \<Rightarrow> (string \<times> string option) \<times> world" where
  "read_tty w =
     (case tty w of
        [] \<Rightarrow> (([], Some ''EOF''), w)
      | Inl err # rest \<Rightarrow> (([], Some err), w\<lparr>tty := rest\<rparr>)
      | Inr s # rest \<Rightarrow> ((s, None), w\<lparr>tty := rest\<rparr>))"

definition time_Now :: "world \<Rightarrow> Time" where
  "time_Now w = clock w (length (trace w))"

text \<open>
  \<open>Time.Format\<close> for the two layouts the program uses, \<open>20060102_150405\<close> and
  \<open>2006-01-02 15:04:05\<close> (zero-padded decimal fields, years of four digits).
\<close>

definition digit :: "nat \<Rightarrow> char" where
  "digit d = ''0123456789'' ! (d mod 10)"

definition digits2 :: "nat \<Rightarrow> string" where
  "digits2 n = [digit (n div 10), digit n]"

definition digits4 :: "nat \<Rightarrow> string" where
  "digits4 n = [digit (n div 1000), digit (n div 100), digit (n div 10), digit n]"

definition Format_20060102_150405 :: "Time \<Rightarrow> string" where
  "Format_20060102_150405 t =
     digits4 (Year t) @ digits2 (Month t) @ digits2 (Day t) @ ''_'' @
     digits2 (Hour t) @ digits2 (Minute t) @ digits2 (Second t)"

definition Format_2006_01_02_15_04_05 :: "Time \<Rightarrow> string" where
  "Format_2006_01_02_15_04_05 t =
     digits4 (Year t) @ ''-'' @ digits2 (Month t) @ ''-'' @ digits2 (Day t) @ '' '' @
     digits2 (Hour t) @ '':'' @ digits2 (Minute t) @ '':'' @ digits2 (Second t)"

text \<open>\<open>strings.Join\<close>.\<close>

fun strings_Join :: "string list \<Rightarrow> string \<Rightarrow> string" where
  "strings_Join [] sep = []"
| "strings_Join [x] sep = x"
| "strings_Join (x # y # ys) sep = x @ sep @ strings_Join (y # ys) sep"

text \<open>
  \<open>strings.TrimSpace\<close>, on the ASCII white space (tab, line feed, vertical tab, form
  feed, carriage return, space).
\<close>

definition isSpace :: "char \<Rightarrow> bool" where
  "isSpace c = (c \<in> set [CHR 9, CHR 10, CHR 11, CHR 12, CHR 13, CHR 32])"

definition strings_TrimSpace :: "string \<Rightarrow> string" where
  "strings_TrimSpace s = rev (dropWhile isSpace (rev (dropWhile isSpace s)))"

text \<open>
  \<open>filepath.Join\<close> on a Unix path: the elements from the first non-empty one on are
  joined with a slash and the result is cleaned (\<open>filepath.Clean\<close>: empty and \<open>.\<close>
  elements go, an inner \<open>..\<close> removes the element before it, a \<open>..\<close> at the root goes,
  the empty result is \<open>.\<close>).
\<close>

fun path_elems :: "string \<Rightarrow> string list" where
  "path_elems [] = [[]]"
| "path_elems (c # cs) =
     (if c = CHR ''/'' then [] # path_elems cs
      else (case path_elems cs of [] \<Rightarrow> [[c]] | e # es \<Rightarrow> (c # e) # es))"

fun clean_elems :: "bool \<Rightarrow> string list \<Rightarrow> string list \<Rightarrow> string list" where
  "clean_elems rooted out [] = out"
| "clean_elems rooted out (e # es) =
     (if e = [] \<or> e = ''.'' then clean_elems rooted out es
      else if e = ''..'' then
        (if out \<noteq> [] \<and> last out \<noteq> ''..'' then clean_elems rooted (butlast out) es
         else if \<not> rooted then clean_elems rooted (out @ [''..'']) es
         else clean_elems rooted out es)
      else clean_elems rooted (out @ [e]) es)"

definition filepath_Clean :: "string \<Rightarrow> string" where
  "filepath_Clean path =
     (if path = [] then ''.''
      else
        let rooted = (hd path = CHR ''/'');
            body = strings_Join (clean_elems rooted [] (path_elems path)) ''/''
        in if rooted then CHR ''/'' # body
           else if body = [] then ''.'' else body)"

fun filepath_Join :: "string list \<Rightarrow> string" where
  "filepath_Join [] = []"
| "filepath_Join (e # es) =
     (if e \<noteq> [] then filepath_Clean (strings_Join (e # es) ''/'') else filepath_Join es)"

section \<open>Configuration (lines 160-282)\<close>

definition sq :: string where
  "sq = [CHR 0x27]"

definition dq :: string where
  "dq = [CHR 0x22]"

definition parseMigrationOptions :: "Flags \<Rightarrow> string + MigrationOptions" where
  "parseMigrationOptions cmd =
     (let mode = mode cmd; outputDir = output_dir cmd; dryRun = dry_run cmd;
          includeRoles = include_roles cmd; noBackup = no_backup cmd
      in if mode \<noteq> ''direct'' \<and> mode \<noteq> ''export''
         then Inl (''mode must be '' @ sq @ ''direct'' @ sq @ '' or '' @ sq @ ''export'' @ sq)
         else Inr \<lparr>Mode = mode, OutputDir = outputDir, CreateBackup = \<not> noBackup,
                   BackupDir = filepath_Join [outputDir, ''backup''],
                   IncludeRoles = includeRoles, IncludeData = True, DryRun = dryRun\<rparr>)"

definition validModes :: "string list" where
  "validModes = [''disable'', ''require'', ''verify-ca'', ''verify-full'']"

text \<open>The loop of \<open>validateSSLMode\<close>: \<open>True\<close> when it returns \<open>nil\<close> from inside the loop.\<close>

fun validateSSLMode_loop :: "string \<Rightarrow> string list \<Rightarrow> bool" where
  "validateSSLMode_loop sslMode [] = False"
| "validateSSLMode_loop sslMode (m # ms) =
     (if sslMode = m then True else validateSSLMode_loop sslMode ms)"

definition validateSSLMode :: "string \<Rightarrow> string option" where
  "validateSSLMode sslMode =
     (if validateSSLMode_loop sslMode validModes then None
      else Some (''must be one of: '' @ strings_Join validModes '', ''))"

definition readPassword :: "world \<Rightarrow> (string \<times> string option) \<times> world" where
  "readPassword w =
     (case read_tty w of
        ((bytePassword, Some err), w1) \<Rightarrow> (([], Some err), w1)
      | ((bytePassword, None), w1) \<Rightarrow> ((bytePassword, None), fmt_Print ''\<newline>'' w1))"

definition getSourceConfig :: "Flags \<Rightarrow> world \<Rightarrow> (string + DatabaseConfig) \<times> world" where
  "getSourceConfig cmd w =
     (let sourceHost = source_host cmd; sourcePort = source_port cmd;
          sourceUser = source_user cmd; sourceDB = source_db cmd; sourceSSL = source_ssl cmd
      in case validateSSLMode sourceSSL of
           Some err \<Rightarrow> (Inl (''invalid source SSL mode: '' @ err), w)
         | None \<Rightarrow>
             (let w1 = fmt_Print (''Enter password for source database ('' @ sourceUser @ ''@''
                                   @ sourceHost @ ''): '') w
              in case readPassword w1 of
                   ((sourcePassword, Some err), w2) \<Rightarrow>
                     (Inl (''failed to read source password: '' @ err), w2)
                 | ((sourcePassword, None), w2) \<Rightarrow>
                     (Inr \<lparr>Host = sourceHost, Port = sourcePort, Username = sourceUser,
                           Password = sourcePassword, Database = sourceDB, SSLMode = sourceSSL\<rparr>,
                      w2)))"

text \<open>
  The prompt for the destination database name (lines 226-253): the result is the name,
  or the error the function returns.
\<close>

definition askDestDB :: "string \<Rightarrow> world \<Rightarrow> (string + string) \<times> world" where
  "askDestDB sourceDBName w =
     (let w1 = fmt_Print ''\<newline>Destination database options:\<newline>'' w;
          w2 = fmt_Print (''1. Use same name as source ('' @ sourceDBName @ '')\<newline>'') w1;
          w3 = fmt_Print ''2. Use different name\<newline>'' w2;
          w4 = fmt_Print ''Choose option (1 or 2): '' w3
      in case read_tty w4 of
           ((choice, Some err), w5) \<Rightarrow> (Inl (''failed to read choice: '' @ err), w5)
         | ((choice, None), w5) \<Rightarrow>
             (let choice = strings_TrimSpace choice
              in if choice = ''1'' then (Inr sourceDBName, w5)
                 else if choice = ''2'' then
                   (let w6 = fmt_Print ''Enter destination database name: '' w5
                    in case read_tty w6 of
                         ((destDB, Some err), w7) \<Rightarrow>
                           (Inl (''failed to read database name: '' @ err), w7)
                       | ((destDB, None), w7) \<Rightarrow> (Inr (strings_TrimSpace destDB), w7))
                 else (Inl (''invalid choice: '' @ choice), w5)))"

definition getDestConfig :: "Flags \<Rightarrow> string \<Rightarrow> world \<Rightarrow> (string + DatabaseConfig) \<times> world" where
  "getDestConfig cmd sourceDBName w =
     (let destHost = dest_host cmd; destPort = dest_port cmd; destUser = dest_user cmd;
          destDB = dest_db cmd; destSSL = dest_ssl cmd
      in case validateSSLMode destSSL of
           Some err \<Rightarrow> (Inl (''invalid destination SSL mode: '' @ err), w)
         | None \<Rightarrow>
             (let w1 = fmt_Print (''Enter password for destination database ('' @ destUser @ ''@''
                                   @ destHost @ ''): '') w
              in case readPassword w1 of
                   ((destPassword, Some err), w2) \<Rightarrow>
                     (Inl (''failed to read destination password: '' @ err), w2)
                 | ((destPassword, None), w2) \<Rightarrow>
                     (case (if destDB = [] then askDestDB sourceDBName w2 else (Inr destDB, w2)) of
                        (Inl err, w3) \<Rightarrow> (Inl err, w3)
                      | (Inr destDB, w3) \<Rightarrow>
                          (Inr \<lparr>Host = destHost, Port = destPort, Username = destUser,
                                Password = destPassword, Database = destDB, SSLMode = destSSL\<rparr>,
                           w3))))"

section \<open>Connection validation (lines 284-326)\<close>

definition validateSourceConnection :: "DatabaseConfig \<Rightarrow> world \<Rightarrow> string option \<times> world" where
  "validateSourceConnection source w =
     (let w1 = logger_Info ''Validating source database connection...'' w;
          sourceConnStr = ''host='' @ Host source @ '' port='' @ Port source @ '' user=''
            @ Username source @ '' password='' @ Password source @ '' dbname='' @ Database source
            @ '' sslmode='' @ SSLMode source
      in case sql_Open sourceConnStr w1 of
           (Some err, w2) \<Rightarrow> (Some (''failed to connect to source database: '' @ err), w2)
         | (None, w2) \<Rightarrow>
             (case db_Ping sourceConnStr w2 of
                (Some err, w3) \<Rightarrow>
                  (Some (''source database ping failed: '' @ err), db_Close sourceConnStr w3)
              | (None, w3) \<Rightarrow>
                  (None, db_Close sourceConnStr
                           (logger_Info ''Source database connection successful'' w3))))"

definition validateConnections ::
  "DatabaseConfig \<Rightarrow> DatabaseConfig \<Rightarrow> world \<Rightarrow> string option \<times> world" where
  "validateConnections source dest w =
     (case validateSourceConnection source w of
        (Some err, w1) \<Rightarrow> (Some err, w1)
      | (None, w1) \<Rightarrow>
          (let w2 = logger_Info ''Validating destination database connection...'' w1;
               destConnStr = ''host='' @ Host dest @ '' port='' @ Port dest @ '' user=''
                 @ Username dest @ '' password='' @ Password dest @ '' dbname=postgres sslmode=''
                 @ SSLMode dest
           in case sql_Open destConnStr w2 of
                (Some err, w3) \<Rightarrow> (Some (''failed to connect to destination server: '' @ err), w3)
              | (None, w3) \<Rightarrow>
                  (case db_Ping destConnStr w3 of
                     (Some err, w4) \<Rightarrow>
                       (Some (''destination server ping failed: '' @ err), db_Close destConnStr w4)
                   | (None, w4) \<Rightarrow>
                       (None, db_Close destConnStr
                                (logger_Info ''Destination server connection successful'' w4)))))"

section \<open>The operations (lines 386-668)\<close>

fun createDirectories_loop :: "string list \<Rightarrow> world \<Rightarrow> string option \<times> world" where
  "createDirectories_loop [] w = (None, w)"
| "createDirectories_loop (dir # rest) w =
     (case os_MkdirAll dir 493 w of
        (Some err, w1) \<Rightarrow> (Some err, w1)
      | (None, w1) \<Rightarrow> createDirectories_loop rest w1)"

text \<open>The permission \<open>0755\<close> is 493.\<close>

definition createDirectories :: "MigrationOptions \<Rightarrow> world \<Rightarrow> string option \<times> world" where
  "createDirectories options w =
     (let dirs = [OutputDir options];
          dirs = (if CreateBackup options then dirs @ [BackupDir options] else dirs)
      in createDirectories_loop dirs w)"

definition removeFromSlice :: "string list \<Rightarrow> string \<Rightarrow> string list" where
  "removeFromSlice slice item = filter (\<lambda>s. s \<noteq> item) slice"

definition exportSchema ::
  "DatabaseConfig \<Rightarrow> string \<Rightarrow> MigrationOptions \<Rightarrow> world \<Rightarrow> string option \<times> world" where
  "exportSchema config outputFile options =
     called ''exportSchema'' (\<lambda>w.
     (let w1 = logger_Info (''Exporting schema from database '' @ sq @ Database config @ sq
                            @ ''...'') w;
          w2 = os_Setenv ''PGPASSWORD'' (Password config) w1;
          w3 = os_Setenv ''PGSSLMODE'' (SSLMode config) w2;
          args = [''-h'', Host config, ''-p'', Port config, ''-U'', Username config,
                  ''-d'', Database config, ''-f'', outputFile, ''--schema-only'', ''--no-owner'',
                  ''--no-privileges'', ''--verbose'', ''--no-password''];
          args = (if IncludeRoles options then removeFromSlice args ''--no-privileges'' else args)
      in case cmd_Run ''pg_dump'' args [outputFile] w3 of
           (Some err, w4) \<Rightarrow>
             (Some (''pg_dump failed: '' @ err),
              os_Unsetenv ''PGPASSWORD'' (os_Unsetenv ''PGSSLMODE'' w4))
         | (None, w4) \<Rightarrow>
             (None, os_Unsetenv ''PGPASSWORD'' (os_Unsetenv ''PGSSLMODE''
                      (logger_Info ''Schema export completed'' w4)))))"

definition databaseExists :: "DatabaseConfig \<Rightarrow> world \<Rightarrow> (bool \<times> string option) \<times> world" where
  "databaseExists config w =
     (let connStr = ''host='' @ Host config @ '' port='' @ Port config @ '' user=''
            @ Username config @ '' password='' @ Password config @ '' dbname=postgres sslmode=''
            @ SSLMode config
      in case sql_Open connStr w of
           (Some err, w1) \<Rightarrow> ((False, Some err), w1)
         | (None, w1) \<Rightarrow>
             (case db_QueryRow_Scan connStr
                     ''SELECT EXISTS(SELECT 1 FROM pg_database WHERE datname = $1)''
                     [Database config] (\<lambda>cat. (connStr, Database config) \<in> cat) w1 of
                ((exists, err), w2) \<Rightarrow> ((exists, err), db_Close connStr w2)))"

definition createDestinationBackup ::
  "DatabaseConfig \<Rightarrow> string \<Rightarrow> MigrationOptions \<Rightarrow> world \<Rightarrow> string option \<times> world" where
  "createDestinationBackup config backupFile options =
     called ''createDestinationBackup'' (\<lambda>w.
     (case databaseExists config w of
        ((exists, Some err), w1) \<Rightarrow> (Some err, w1)
      | ((exists, None), w1) \<Rightarrow>
          if \<not> exists
          then (None, logger_Info (''Destination database doesn'' @ sq @ ''t exist, skipping backup'') w1)
          else
            (let w2 = logger_Info (''Creating backup of destination database '' @ sq
                                   @ Database config @ sq @ ''...'') w1;
                 w3 = os_Setenv ''PGPASSWORD'' (Password config) w2;
                 w4 = os_Setenv ''PGSSLMODE'' (SSLMode config) w3;
                 args = [''-h'', Host config, ''-p'', Port config, ''-U'', Username config,
                         ''-d'', Database config, ''-f'', backupFile, ''--verbose'',
                         ''--no-password''];
                 args = (if IncludeData options then args else args @ [''--schema-only''])
             in case cmd_Run ''pg_dump'' args [backupFile] w4 of
                  (Some err, w5) \<Rightarrow>
                    (Some (''backup pg_dump failed: '' @ err),
                     os_Unsetenv ''PGPASSWORD'' (os_Unsetenv ''PGSSLMODE'' w5))
                | (None, w5) \<Rightarrow>
                    (None, os_Unsetenv ''PGPASSWORD'' (os_Unsetenv ''PGSSLMODE''
                             (logger_Info ''Backup created successfully'' w5))))))"

definition terminateQuery :: string where
  "terminateQuery =
     ''\<newline>'' @ [CHR 9, CHR 9] @ ''SELECT pg_terminate_backend(pid)\<newline>''
     @ [CHR 9, CHR 9] @ ''FROM pg_stat_activity\<newline>''
     @ [CHR 9, CHR 9] @ ''WHERE datname = $1 AND pid <> pg_backend_pid()''"

definition dropDatabaseIfExists :: "DatabaseConfig \<Rightarrow> world \<Rightarrow> string option \<times> world" where
  "dropDatabaseIfExists config =
     called ''dropDatabaseIfExists'' (\<lambda>w.
     (case databaseExists config w of
        ((exists, Some err), w1) \<Rightarrow> (Some err, w1)
      | ((exists, None), w1) \<Rightarrow>
          if \<not> exists
          then (None, logger_Info (''Destination database doesn'' @ sq @ ''t exist, skipping drop'') w1)
          else
            (let w2 = logger_Info (''Dropping existing database '' @ sq @ Database config @ sq) w1;
                 connStr = ''host='' @ Host config @ '' port='' @ Port config @ '' user=''
                   @ Username config @ '' password='' @ Password config
                   @ '' dbname=postgres sslmode='' @ SSLMode config
             in case sql_Open connStr w2 of
                  (Some err, w3) \<Rightarrow> (Some err, w3)
                | (None, w3) \<Rightarrow>
                    (let w5 = (case db_Exec connStr terminateQuery [Database config] (\<lambda>cat. cat) w3 of
                                 (Some err, w4) \<Rightarrow>
                                   logger_Warning (''Could not terminate all connections: '' @ err) w4
                               | (None, w4) \<Rightarrow> w4);
                         dropQuery = ''DROP DATABASE '' @ dq @ Database config @ dq
                     in case db_Exec connStr dropQuery []
                               (\<lambda>cat. cat - {(connStr, Database config)}) w5 of
                          (Some err, w6) \<Rightarrow> (Some err, db_Close connStr w6)
                        | (None, w6) \<Rightarrow>
                            (None, db_Close connStr
                                     (logger_Info ''Database dropped successfully'' w6))))))"

definition createDatabase :: "DatabaseConfig \<Rightarrow> world \<Rightarrow> string option \<times> world" where
  "createDatabase config =
     called ''createDatabase'' (\<lambda>w.
     (let w1 = logger_Info (''Creating destination database '' @ sq @ Database config @ sq
                            @ ''...'') w;
          connStr = ''host='' @ Host config @ '' port='' @ Port config @ '' user=''
            @ Username config @ '' password='' @ Password config @ '' dbname=postgres sslmode=''
            @ SSLMode config
      in case sql_Open connStr w1 of
           (Some err, w2) \<Rightarrow> (Some err, w2)
         | (None, w2) \<Rightarrow>
             (let createQuery = ''CREATE DATABASE '' @ dq @ Database config @ dq
              in case db_Exec connStr createQuery []
                        (\<lambda>cat. insert (connStr, Database config) cat) w2 of
                   (Some err, w3) \<Rightarrow> (Some err, db_Close connStr w3)
                 | (None, w3) \<Rightarrow>
                     (None, db_Close connStr (logger_Info ''Database created successfully'' w3)))))"

definition recreateDestinationDatabase :: "DatabaseConfig \<Rightarrow> world \<Rightarrow> string option \<times> world" where
  "recreateDestinationDatabase config =
     called ''recreateDestinationDatabase'' (\<lambda>w.
     (case dropDatabaseIfExists config w of
        (Some err, w1) \<Rightarrow> (Some err, w1)
      | (None, w1) \<Rightarrow>
          (case createDatabase config w1 of
             (Some err, w2) \<Rightarrow> (Some err, w2)
           | (None, w2) \<Rightarrow> (None, w2))))"

definition applySchema :: "DatabaseConfig \<Rightarrow> string \<Rightarrow> world \<Rightarrow> string option \<times> world" where
  "applySchema config schemaFile =
     called ''applySchema'' (\<lambda>w.
     (let w1 = logger_Info (''Applying schema to destination database '' @ sq @ Database config
                            @ sq @ ''...'') w;
          w2 = os_Setenv ''PGPASSWORD'' (Password config) w1;
          w3 = os_Setenv ''PGSSLMODE'' (SSLMode config) w2
      in case cmd_Run ''psql''
                [''-h'', Host config, ''-p'', Port config, ''-U'', Username config,
                 ''-d'', Database config, ''-f'', schemaFile, ''--no-password''] [] w3 of
           (Some err, w4) \<Rightarrow>
             (Some (''psql schema application failed: '' @ err),
              os_Unsetenv ''PGPASSWORD'' (os_Unsetenv ''PGSSLMODE'' w4))
         | (None, w4) \<Rightarrow>
             (None, os_Unsetenv ''PGPASSWORD'' (os_Unsetenv ''PGSSLMODE''
                      (logger_Info ''Schema applied successfully'' w4)))))"

text \<open>
  The text of the rollback script: the \<open>Sprintf\<close> of lines 622-660, with its eighteen
  arguments in their order.
\<close>

definition rollbackScriptText :: "string \<Rightarrow> DatabaseConfig \<Rightarrow> string \<Rightarrow> string" where
  \<open>rollbackScriptText created config backupFile =
     ''#!/bin/bash\<newline>'' @
     ''# Rollback script generated by pg-schema-migrate\<newline>'' @
     ''# Created: '' @ created @ ''\<newline>'' @
     ''# Database: '' @ Username config @ ''@'' @ Host config @ '':'' @ Port config @ ''\<newline>'' @
     ''\<newline>'' @
     ''echo "WARNING: This will restore the database to its previous state!"\<newline>'' @
     ''echo "This will DROP the current database and restore from backup."\<newline>'' @
     ''read -p "Are you sure you want to continue? (yes/no): " confirm\<newline>'' @
     ''\<newline>'' @
     ''if [ "$confirm" = "yes" ]; then\<newline>'' @
     ''    echo "Starting rollback..."\<newline>'' @
     ''\<newline>'' @
     ''    # Set password (you'' @ sq @ ''ll need to enter it)\<newline>'' @
     ''    export PGPASSWORD=""\<newline>'' @
     ''    export PGSSLMODE="'' @ SSLMode config @ ''"\<newline>'' @
     ''\<newline>'' @
     ''    # Drop current database\<newline>'' @
     ''    echo "Dropping current database..."\<newline>'' @
     ''    psql -h '' @ Host config @ '' -p '' @ Port config @ '' -U '' @ Username config @
     '' -d postgres -c "DROP DATABASE IF EXISTS '' @ Database config @ '';"\<newline>'' @
     ''\<newline>'' @
     ''    # Create database\<newline>'' @
     ''    echo "Creating database..."\<newline>'' @
     ''    psql -h '' @ Host config @ '' -p '' @ Port config @ '' -U '' @ Username config @
     '' -d postgres -c "CREATE DATABASE '' @ Database config @ '';"\<newline>'' @
     ''\<newline>'' @
     ''    # Restore from backup\<newline>'' @
     ''    echo "Restoring from backup..."\<newline>'' @
     ''    psql -h '' @ Host config @ '' -p '' @ Port config @ '' -U '' @ Username config @
     '' -d '' @ Database config @ '' -f '' @ backupFile @ ''\<newline>'' @
     ''\<newline>'' @
     ''    echo "Rollback completed!"\<newline>'' @
     ''else\<newline>'' @
     ''    echo "Rollback cancelled."\<newline>'' @
     ''fi\<newline>''\<close>

definition generateRollbackScript ::
  "DatabaseConfig \<Rightarrow> string \<Rightarrow> MigrationOptions \<Rightarrow> world \<Rightarrow> string option \<times> world" where
  "generateRollbackScript config backupFile options =
     called ''generateRollbackScript'' (\<lambda>w.
     (if \<not> CreateBackup options \<or> backupFile = [] then (None, w)
      else
        (let rollbackScript = filepath_Join [OutputDir options, ''rollback.sh''];
             w1 = logger_Info (''Generating rollback script: '' @ rollbackScript) w;
             script = rollbackScriptText (Format_2006_01_02_15_04_05 (time_Now w1)) config backupFile
         in case ioutil_WriteFile rollbackScript script 493 w1 of
              (Some err, w2) \<Rightarrow> (Some err, w2)
            | (None, w2) \<Rightarrow>
                (None, logger_Success (''Rollback script created: '' @ rollbackScript) w2))))"

section \<open>The orchestrator (lines 328-384)\<close>

text \<open>
  What a Go function call ends in: it returns its value, or it panics. A \<open>nil\<close>
  destination configuration panics (nil pointer dereference) where the source first reads
  a field of it; each operation reads one in its first statement, before any effect of
  its own.
\<close>

datatype 'a go = Return_value 'a | Panic

text \<open>
  Step 2 (lines 349-356): the value is the backup file path of the rest of the run, or
  \<open>None\<close> where \<open>dest.Database\<close> panics.
\<close>

definition backupStep ::
  "DatabaseConfig option \<Rightarrow> MigrationOptions \<Rightarrow> string \<Rightarrow> world \<Rightarrow> string option \<times> world" where
  "backupStep dest options timestamp w =
     (if CreateBackup options then
        (case dest of
           None \<Rightarrow> (None, w)
         | Some d \<Rightarrow>
             (let backupFile = filepath_Join [BackupDir options,
                                  ''backup_'' @ Database d @ ''_'' @ timestamp @ ''.sql'']
              in case createDestinationBackup d backupFile options w of
                   (Some err, w1) \<Rightarrow>
                     (Some backupFile,
                      logger_Warning (''Backup creation failed (continuing): '' @ err) w1)
                 | (None, w1) \<Rightarrow> (Some backupFile, w1)))
      else (Some [], w))"

text \<open>The dry-run branch (lines 358-366).\<close>

definition dryRunReport ::
  "DatabaseConfig option \<Rightarrow> string \<Rightarrow> string \<Rightarrow> MigrationOptions \<Rightarrow> world
     \<Rightarrow> string option go \<times> world" where
  "dryRunReport dest schemaFile backupFile options w =
     (let w1 = logger_Info ''DRY RUN MODE - showing what would be done:'' w
      in case dest of
           None \<Rightarrow> (Panic, w1)
         | Some d \<Rightarrow>
             (let w2 = logger_Info (''1. Drop and recreate database: '' @ Database d) w1;
                  w3 = logger_Info (''2. Apply schema from: '' @ schemaFile) w2;
                  w4 = (if CreateBackup options \<and> backupFile \<noteq> []
                        then logger_Info (''3. Backup created at: '' @ backupFile) w3 else w3)
              in case generateRollbackScript d backupFile options w4 of
                   (err, w5) \<Rightarrow> (Return_value err, w5)))"

text \<open>
  Steps 3 to 5 (lines 368-383). With a \<open>nil\<close> destination the panic is inside
  \<open>databaseExists\<close>, reached through the two operations that call it.
\<close>

definition migrateSteps ::
  "DatabaseConfig option \<Rightarrow> string \<Rightarrow> string \<Rightarrow> MigrationOptions \<Rightarrow> world
     \<Rightarrow> string option go \<times> world" where
  "migrateSteps dest schemaFile backupFile options w =
     (case dest of
        None \<Rightarrow>
          (Panic, emit (Call ''dropDatabaseIfExists'') (emit (Call ''recreateDestinationDatabase'') w))
      | Some d \<Rightarrow>
          (case recreateDestinationDatabase d w of
             (Some err, w1) \<Rightarrow>
               (Return_value (Some (''failed to recreate destination database: '' @ err)), w1)
           | (None, w1) \<Rightarrow>
               (case applySchema d schemaFile w1 of
                  (Some err, w2) \<Rightarrow>
                    (Return_value (Some (''failed to apply schema: '' @ err)), w2)
                | (None, w2) \<Rightarrow>
                    (case generateRollbackScript d backupFile options w2 of
                       (Some err, w3) \<Rightarrow>
                         (Return_value None,
                          logger_Warning (''Failed to generate rollback script: '' @ err) w3)
                     | (None, w3) \<Rightarrow> (Return_value None, w3)))))"

definition performSchemaMigration ::
  "DatabaseConfig \<Rightarrow> DatabaseConfig option \<Rightarrow> MigrationOptions \<Rightarrow> world
     \<Rightarrow> string option go \<times> world" where
  "performSchemaMigration source dest options w =
     (let timestamp = Format_20060102_150405 (time_Now w)
      in case createDirectories options w of
           (Some err, w1) \<Rightarrow> (Return_value (Some (''failed to create directories: '' @ err)), w1)
         | (None, w1) \<Rightarrow>
             (let schemaFile = filepath_Join [OutputDir options,
                                  ''schema_'' @ Database source @ ''_'' @ timestamp @ ''.sql'']
              in case exportSchema source schemaFile options w1 of
                   (Some err, w2) \<Rightarrow>
                     (Return_value (Some (''failed to export schema: '' @ err)), w2)
                 | (None, w2) \<Rightarrow>
                     (case backupStep dest options timestamp w2 of
                        (None, w3) \<Rightarrow> (Panic, w3)
                      | (Some backupFile, w3) \<Rightarrow>
                          if DryRun options
                          then dryRunReport dest schemaFile backupFile options w3
                          else migrateSteps dest schemaFile backupFile options w3)))"

section \<open>The command (lines 75-158)\<close>

text \<open>
  How \<open>runSchemaMigration\<close> ends: it returns, it calls \<open>os.Exit\<close>, or it panics. The exit
  status of the process is 0 after a return and 2 after a panic that nothing recovers.
\<close>

datatype ending = Returns | Exits nat | Panics

definition runSchemaMigration :: "Flags \<Rightarrow> world \<Rightarrow> ending \<times> world" where
  "runSchemaMigration cmd w =
     (let w1 = logger_Info ''Starting PostgreSQL schema migration...'' w
      in case parseMigrationOptions cmd of
           Inl err \<Rightarrow> (Exits 1, logger_Error (''Failed to parse options: '' @ err) w1)
         | Inr options \<Rightarrow>
             (case getSourceConfig cmd w1 of
                (Inl err, w2) \<Rightarrow>
                  (Exits 1, logger_Error (''Failed to get source config: '' @ err) w2)
              | (Inr sourceConfig, w2) \<Rightarrow>
                  (case (if Mode options = ''direct'' then
                           (case getDestConfig cmd (Database sourceConfig) w2 of
                              (Inl err, w3) \<Rightarrow>
                                (Inl (), logger_Error (''Failed to get destination config: '' @ err) w3)
                            | (Inr destConfig, w3) \<Rightarrow>
                                (case validateConnections sourceConfig destConfig w3 of
                                   (Some err, w4) \<Rightarrow>
                                     (Inl (), logger_Error (''Connection validation failed: '' @ err) w4)
                                 | (None, w4) \<Rightarrow> (Inr (Some destConfig), w4)))
                         else
                           (case validateSourceConnection sourceConfig w2 of
                              (Some err, w3) \<Rightarrow>
                                (Inl (), logger_Error (''Source connection validation failed: '' @ err) w3)
                            | (None, w3) \<Rightarrow> (Inr None, w3))) of
                     (Inl u, w5) \<Rightarrow> (Exits 1, w5)
                   | (Inr destConfig, w5) \<Rightarrow>
                       (case performSchemaMigration sourceConfig destConfig options w5 of
                          (Panic, w6) \<Rightarrow> (Panics, w6)
                        | (Return_value (Some err), w6) \<Rightarrow>
                            (Exits 1, logger_Error (''Schema migration failed: '' @ err) w6)
                        | (Return_value None, w6) \<Rightarrow>
                            (Returns, logger_Success ''Schema migration completed successfully!'' w6)))))"

text \<open>The exit status of the process, for flags the flag library has accepted.\<close>

definition exit_status :: "Flags \<Rightarrow> world \<Rightarrow> nat \<times> world" where
  "exit_status cmd w =
     (case runSchemaMigration cmd w of
        (Returns, w') \<Rightarrow> (0, w')
      | (Exits n, w') \<Rightarrow> (n, w')
      | (Panics, w') \<Rightarrow> (2, w'))"

section \<open>Observations on traces\<close>

text \<open>The events a run has added to the trace of the world it started in.\<close>

definition events_since :: "world \<Rightarrow> world \<Rightarrow> event list" where
  "events_since w w' = drop (length (trace w)) (trace w')"

text \<open>The events that talk to a database server.\<close>

fun is_connection :: "event \<Rightarrow> bool" where
  "is_connection (SqlOpen c, r) = True"
| "is_connection (Ping c, r) = True"
| "is_connection (QueryRow c q a, r) = True"
| "is_connection (Exec c q a, r) = True"
| "is_connection e = False"

text \<open>
  The second world continues the trace of the first, and every event added satisfies \<open>P\<close>.
\<close>

definition adds :: "(event \<Rightarrow> bool) \<Rightarrow> world \<Rightarrow> world \<Rightarrow> bool" where
  "adds P w w' \<longleftrightarrow> (\<exists>evs. trace w' = trace w @ evs \<and> list_all P evs)"

text \<open>
  The events of the destructive operations: a statement sent to a server, a run of
  \<open>psql\<close>, and the marks of \<open>recreateDestinationDatabase\<close>, \<open>dropDatabaseIfExists\<close>,
  \<open>createDatabase\<close> and \<open>applySchema\<close>.
\<close>

definition destructive_ops :: "string list" where
  "destructive_ops = [''recreateDestinationDatabase'', ''dropDatabaseIfExists'', ''createDatabase'',
                      ''applySchema'']"

fun destructive :: "event \<Rightarrow> bool" where
  "destructive (Exec c q a, r) = True"
| "destructive (Run name args env, r) = (name = ''psql'')"
| "destructive (Call f, r) = (f \<in> set destructive_ops)"
| "destructive (Return f e, r) = (f \<in> set destructive_ops)"
| "destructive e = False"

text \<open>The marks of calls and returns.\<close>

fun is_mark :: "event \<Rightarrow> bool" where
  "is_mark (Call f, r) = True"
| "is_mark (Return f e, r) = True"
| "is_mark e = False"

text \<open>An event inside an operation that leaves the servers alone.\<close>

definition plain :: "event \<Rightarrow> bool" where
  "plain e \<longleftrightarrow> \<not> is_mark e \<and> \<not> destructive e"

text \<open>
  A step that leaves the servers alone: it continues the trace with events that are not
  destructive, and the catalog is what it was.
\<close>

definition quiet :: "world \<Rightarrow> world \<Rightarrow> bool" where
  "quiet w w' \<longleftrightarrow> adds (\<lambda>e. \<not> destructive e) w w' \<and> catalog w' = catalog w"

text \<open>
  The trace of a marked operation: its call, the events inside (each satisfying \<open>P\<close>),
  and the return with the value the operation gave.
\<close>

definition framed ::
  "(event \<Rightarrow> bool) \<Rightarrow> string \<Rightarrow> world \<Rightarrow> string option \<times> world \<Rightarrow> bool" where
  "framed P n w rw \<longleftrightarrow>
     (\<exists>inner. trace (snd rw) = trace w @ (Call n, None) # inner @ [(Return n (fst rw), None)]
              \<and> list_all P inner)"

text \<open>
  The order of apply and recreate in a list of events: every call of \<open>applySchema\<close> comes
  when the latest call of \<open>recreateDestinationDatabase\<close> has returned \<open>nil\<close>. The flag says
  whether that is so at the start of the list.
\<close>

fun apply_after_recreate :: "bool \<Rightarrow> event list \<Rightarrow> bool" where
  "apply_after_recreate ok [] = True"
| "apply_after_recreate ok ((Call f, r) # es) =
     (if f = ''applySchema'' then ok \<and> apply_after_recreate ok es
      else if f = ''recreateDestinationDatabase'' then apply_after_recreate False es
      else apply_after_recreate ok es)"
| "apply_after_recreate ok ((Return f e, r) # es) =
     (if f = ''recreateDestinationDatabase'' then apply_after_recreate (e = None) es
      else apply_after_recreate ok es)"
| "apply_after_recreate ok (e # es) = apply_after_recreate ok es"

text \<open>The events that \<open>apply_after_recreate\<close> looks at.\<close>

fun guard_relevant :: "event \<Rightarrow> bool" where
  "guard_relevant (Call f, r) = (f = ''applySchema'' \<or> f = ''recreateDestinationDatabase'')"
| "guard_relevant (Return f e, r) = (f = ''recreateDestinationDatabase'')"
| "guard_relevant e = False"

text \<open>
  The connection string of the maintenance database \<open>postgres\<close> on the server of a
  configuration.
\<close>

definition maintenance_conn :: "DatabaseConfig \<Rightarrow> string" where
  "maintenance_conn config =
     ''host='' @ Host config @ '' port='' @ Port config @ '' user='' @ Username config
     @ '' password='' @ Password config @ '' dbname=postgres sslmode='' @ SSLMode config"

text \<open>A world in which every fallible action succeeds.\<close>

definition obliging :: "world \<Rightarrow> bool" where
  "obliging w \<longleftrightarrow> (\<forall>tr a. respond w tr a = None)"

text \<open>
  The timestamp and the two file paths that a run of \<open>performSchemaMigration\<close> started
  in world \<open>w\<close> computes (lines 329, 337 and 352).
\<close>

definition run_timestamp :: "world \<Rightarrow> string" where
  "run_timestamp w = Format_20060102_150405 (time_Now w)"

definition schema_path :: "MigrationOptions \<Rightarrow> DatabaseConfig \<Rightarrow> world \<Rightarrow> string" where
  "schema_path options source w =
     filepath_Join [OutputDir options,
                    ''schema_'' @ Database source @ ''_'' @ run_timestamp w @ ''.sql'']"

definition backup_path :: "MigrationOptions \<Rightarrow> DatabaseConfig \<Rightarrow> world \<Rightarrow> string" where
  "backup_path options dest w =
     filepath_Join [BackupDir options,
                    ''backup_'' @ Database dest @ ''_'' @ run_timestamp w @ ''.sql'']"

text \<open>The files a list of events asks to write: path, content and permission.\<close>

fun written :: "event list \<Rightarrow> (string \<times> string \<times> nat) list" where
  "written [] = []"
| "written ((WriteFile path content perm, r) # es) = (path, content, perm) # written es"
| "written (e # es) = written es"

text \<open>
  The command lines a list of events runs, and whether each command that is run finds the
  given password in the variable \<open>PGPASSWORD\<close> of its environment.
\<close>

fun command_lines :: "event list \<Rightarrow> (string \<times> string list) list" where
  "command_lines [] = []"
| "command_lines ((Run name args env, r) # es) = (name, args) # command_lines es"
| "command_lines (e # es) = command_lines es"

fun passes_password :: "string \<Rightarrow> event \<Rightarrow> bool" where
  "passes_password pw (Run name args env, r) = (map_of env ''PGPASSWORD'' = Some pw)"
| "passes_password pw e = True"

section \<open>Example inputs\<close>

definition example_time :: Time where
  "example_time = \<lparr>Year = 2024, Month = 8, Day = 6, Hour = 14, Minute = 30, Second = 22\<rparr>"

definition calm_world :: world where
  "calm_world = \<lparr>respond = (\<lambda>tr a. None), clock = (\<lambda>n. example_time),
     tty = [Inr ''s3cret'', Inr ''dest-s3cret''], trace = [], environ = [], dirs = {}, files = {},
     catalog = {}\<rparr>"

definition direct_flags :: Flags where
  "direct_flags = \<lparr>source_host = ''prod.example.com'', source_port = ''5432'', source_user = ''app'',
     source_db = ''shop_prod'', source_ssl = ''require'', dest_host = ''staging.example.com'',
     dest_port = ''5433'', dest_user = ''admin'', dest_db = ''shop_staging'', dest_ssl = ''disable'',
     mode = ''direct'', output_dir = ''./out'', dry_run = False, include_roles = False,
     no_backup = False\<rparr>"

definition source_config :: DatabaseConfig where
  "source_config = \<lparr>Host = ''prod.example.com'', Port = ''5432'', Username = ''app'',
     Password = ''s3cret'', Database = ''shop_prod'', SSLMode = ''require''\<rparr>"

definition dest_config :: DatabaseConfig where
  "dest_config = \<lparr>Host = ''staging.example.com'', Port = ''5433'', Username = ''admin'',
     Password = ''dest-s3cret'', Database = ''shop_staging'', SSLMode = ''disable''\<rparr>"

definition direct_options :: MigrationOptions where
  "direct_options = \<lparr>Mode = ''direct'', OutputDir = ''./out'', CreateBackup = True,
     BackupDir = ''out/backup'', IncludeRoles = False, IncludeData = True, DryRun = False\<rparr>"

definition dry_options :: MigrationOptions where
  "dry_options = direct_options\<lparr>DryRun := True\<rparr>"

definition export_dry_options :: MigrationOptions where
  "export_dry_options = direct_options\<lparr>Mode := ''export'', DryRun := True\<rparr>"

definition example_backup_file :: string where
  "example_backup_file = ''out/backup/backup_shop_staging_20240806_143022.sql''"

text \<open>A world like \<open>calm_world\<close> in which the destination database exists.\<close>

definition staged_world :: world where
  "staged_world = calm_world\<lparr>catalog := {(maintenance_conn dest_config, Database dest_config)}\<rparr>"

text \<open>
  An export of the database \<open>reports\<close> into \<open>./out\<close>, and the source configuration that
  \<open>getSourceConfig\<close> makes of these flags and the password read from the terminal.
\<close>

definition export_flags :: Flags where
  "export_flags = \<lparr>source_host = ''prod.example.com'', source_port = ''5432'', source_user = ''app'',
     source_db = ''reports'', source_ssl = ''require'', dest_host = [], dest_port = ''5432'',
     dest_user = [], dest_db = [], dest_ssl = ''require'', mode = ''export'',
     output_dir = ''./out'', dry_run = False, include_roles = False, no_backup = False\<rparr>"

definition reports_config :: DatabaseConfig where
  "reports_config = \<lparr>Host = ''prod.example.com'', Port = ''5432'', Username = ''app'',
     Password = ''s3cret'', Database = ''reports'', SSLMode = ''require''\<rparr>"

text \<open>The connection string of the database of a configuration itself (lines 287-288).\<close>

definition database_conn :: "DatabaseConfig \<Rightarrow> string" where
  "database_conn config =
     ''host='' @ Host config @ '' port='' @ Port config @ '' user='' @ Username config
     @ '' password='' @ Password config @ '' dbname='' @ Database config
     @ '' sslmode='' @ SSLMode config"

text \<open>The connection strings that a list of events opens, in order.\<close>

fun opened :: "event list \<Rightarrow> string list" where
  "opened [] = []"
| "opened ((SqlOpen c, r) # es) = c # opened es"
| "opened (e # es) = opened es"

text \<open>
  Two worlds in which the destination database exists and one statement fails: in the
  first the \<open>DROP DATABASE\<close>, in the second the \<open>CREATE DATABASE\<close>, both with the same
  message.
\<close>

definition drop_fails_world :: world where
  "drop_fails_world = staged_world\<lparr>respond :=
     (\<lambda>tr a. if a = Exec (maintenance_conn dest_config)
                          (''DROP DATABASE '' @ dq @ ''shop_staging'' @ dq) []
              then Some ''boom'' else None)\<rparr>"

definition create_fails_world :: world where
  "create_fails_world = staged_world\<lparr>respond :=
     (\<lambda>tr a. if a = Exec (maintenance_conn dest_config)
                          (''CREATE DATABASE '' @ dq @ ''shop_staging'' @ dq) []
              then Some ''boom'' else None)\<rparr>"

text \<open>
  A world in which the destination database exists and every \<open>pg_dump\<close> that is not run
  with \<open>--schema-only\<close> fails: the export goes through, the backup with data does not.
\<close>

definition dump_fails :: "event list \<Rightarrow> action \<Rightarrow> string option" where
  "dump_fails tr a =
     (case a of
        Run name args env \<Rightarrow>
          if name = ''pg_dump'' \<and> ''--schema-only'' \<notin> set args then Some ''exit status 1''
          else None
      | _ \<Rightarrow> None)"

definition backup_fails_world :: world where
  "backup_fails_world = staged_world\<lparr>respond := dump_fails\<rparr>"



section \<open>Auxiliary lemmas\<close>

lemma adds_events_since: "adds P w w' \<Longrightarrow> list_all P (events_since w w')"
  by (auto simp: adds_def events_since_def)

lemma adds_refl: "adds P w w"
  by (simp add: adds_def)

lemma adds_trans: "adds P w w1 \<Longrightarrow> adds P w1 w2 \<Longrightarrow> adds P w w2"
  by (auto simp: adds_def)

lemma adds_mono: "adds P w w' \<Longrightarrow> (\<And>e. P e \<Longrightarrow> Q e) \<Longrightarrow> adds Q w w'"
  by (auto simp: adds_def list_all_iff)

lemma validateSSLMode_None_iff:
  "validateSSLMode s = None \<longleftrightarrow> s \<in> {''disable'', ''require'', ''verify-ca'', ''verify-full''}"
  by (simp add: validateSSLMode_def validModes_def)

lemma validateSSLMode_Some:
  "s \<notin> {''disable'', ''require'', ''verify-ca'', ''verify-full''} \<Longrightarrow>
   validateSSLMode s = Some ''must be one of: disable, require, verify-ca, verify-full''"
  by (simp add: validateSSLMode_def validModes_def)

lemmas prim_defs = logger_Info_def logger_Error_def logger_Success_def logger_Warning_def fmt_Print_def
  emit_def attempt_def

lemma getSourceConfig_invalid:
  "validateSSLMode (source_ssl cmd) = Some e \<Longrightarrow>
   getSourceConfig cmd w = (Inl (''invalid source SSL mode: '' @ e), w)"
  by (simp add: getSourceConfig_def)

lemma readPassword_adds: "adds (\<lambda>e. \<not> is_connection e) w (snd (readPassword w))"
  by (simp add: adds_def readPassword_def read_tty_def prim_defs split: list.split sum.split)

lemma getSourceConfig_adds: "adds (\<lambda>e. \<not> is_connection e) w (snd (getSourceConfig cmd w))"
  by (simp add: adds_def getSourceConfig_def readPassword_def read_tty_def prim_defs Let_def
       split: list.split sum.split option.split prod.split)

lemma source_ssl_invalid:
  assumes "validateSSLMode (source_ssl cmd) = Some e"
  shows "fst (exit_status cmd w) = 1 \<and> \<not> list_ex is_connection (events_since w (snd (exit_status cmd w)))"
  using assms
  by (simp add: exit_status_def runSchemaMigration_def getSourceConfig_invalid events_since_def prim_defs Let_def
      split: sum.split)



lemmas lib_defs = prim_defs os_Setenv_def os_Unsetenv_def os_MkdirAll_def ioutil_WriteFile_def
  cmd_Run_def sql_Open_def db_Close_def db_Ping_def db_QueryRow_Scan_def db_Exec_def Let_def

lemma called_framed:
  assumes "\<And>w0. adds P w0 (snd (body w0))"
  shows "framed P n w (called n body w)"
proof -
  obtain r w1 where b: "body (emit (Call n) w) = (r, w1)"
    by (cases "body (emit (Call n) w)")
  from assms [of "emit (Call n) w"] b obtain evs where
    "trace w1 = trace w @ (Call n, None) # evs" and "list_all P evs"
    by (auto simp: adds_def emit_def)
  then show ?thesis
    using b by (simp add: called_def framed_def emit_def)
qed

lemma called_catalog:
  assumes "\<And>w0. catalog (snd (body w0)) = catalog w0"
  shows "catalog (snd (called n body w)) = catalog w"
  using assms [of "emit (Call n) w"]
  by (cases "body (emit (Call n) w)") (simp add: called_def emit_def)

lemma called_fst: "fst (called n body w) = fst (body (emit (Call n) w))"
  by (cases "body (emit (Call n) w)") (simp add: called_def)

lemma framed_adds:
  assumes "framed P n w rw" and "\<And>e. P e \<Longrightarrow> Q e" and "Q (Call n, None)" and "\<And>r. Q (Return n r, None)"
  shows "adds Q w (snd rw)"
  using assms by (auto simp: framed_def adds_def list_all_iff)

lemma framed_quiet:
  assumes "framed plain n w rw" and "catalog (snd rw) = catalog w" and "n \<notin> set destructive_ops"
  shows "quiet w (snd rw)"
  unfolding quiet_def
  using framed_adds [OF assms(1), of "\<lambda>e. \<not> destructive e"] assms(2,3)
  by (simp add: plain_def)

lemma quiet_refl: "quiet w w"
  by (simp add: quiet_def adds_refl)

lemma quiet_trans: "quiet w w1 \<Longrightarrow> quiet w1 w2 \<Longrightarrow> quiet w w2"
  by (auto simp: quiet_def intro: adds_trans)

subsection \<open>createDirectories\<close>

lemma MkdirAll_plain: "adds plain w (snd (os_MkdirAll d p w)) \<and> catalog (snd (os_MkdirAll d p w)) = catalog w"
  by (simp add: adds_def plain_def lib_defs split: option.split)

lemma createDirectories_loop_plain:
  "adds plain w (snd (createDirectories_loop ds w)) \<and>
   catalog (snd (createDirectories_loop ds w)) = catalog w"
proof (induction ds arbitrary: w)
  case Nil
  show ?case by (simp add: adds_refl)
next
  case (Cons d ds)
  show ?case
  proof (cases "os_MkdirAll d 493 w")
    case (Pair r w1)
    with MkdirAll_plain [of w d 493] have q: "adds plain w w1" "catalog w1 = catalog w"
      by simp_all
    show ?thesis
    proof (cases r)
      case None
      from adds_trans [OF q(1)] Cons [of w1] q(2) Pair None show ?thesis by simp
    next
      case (Some e)
      with Pair q show ?thesis by simp
    qed
  qed
qed

lemma createDirectories_plain:
  "adds plain w (snd (createDirectories options w)) \<and>
   catalog (snd (createDirectories options w)) = catalog w"
  by (simp add: createDirectories_def createDirectories_loop_plain Let_def)

subsection \<open>exportSchema\<close>

lemma exportSchema_framed: "framed plain ''exportSchema'' w (exportSchema config f options w)"
  unfolding exportSchema_def
  by (rule called_framed; cases "IncludeRoles options")
     (simp_all add: adds_def plain_def lib_defs split: option.split)

lemma exportSchema_catalog: "catalog (snd (exportSchema config f options w)) = catalog w"
  unfolding exportSchema_def
  by (rule called_catalog; cases "IncludeRoles options")
     (simp_all add: lib_defs split: option.split)

subsection \<open>databaseExists\<close>

lemma databaseExists_plain:
  "adds plain w (snd (databaseExists config w)) \<and> catalog (snd (databaseExists config w)) = catalog w"
  by (simp add: databaseExists_def adds_def plain_def lib_defs split: option.split)

subsection \<open>createDestinationBackup\<close>

lemma createDestinationBackup_framed:
  "framed plain ''createDestinationBackup'' w (createDestinationBackup config f options w)"
  unfolding createDestinationBackup_def
proof (rule called_framed, goal_cases)
  case (1 w0)
  let "adds _ _ ?r" = ?case
  obtain ex err w1 where d: "databaseExists config w0 = ((ex, err), w1)"
    by (metis prod.exhaust)
  with databaseExists_plain [of w0 config] have q: "adds plain w0 w1" by simp
  have "adds plain w1 ?r"
    by (cases "IncludeData options"; cases err; cases ex)
       (simp_all add: d adds_def plain_def lib_defs split: option.split)
  from adds_trans [OF q this] show ?case .
qed

lemma createDestinationBackup_catalog:
  "catalog (snd (createDestinationBackup config f options w)) = catalog w"
  unfolding createDestinationBackup_def
proof (rule called_catalog, goal_cases)
  case (1 w0)
  obtain ex err w1 where d: "databaseExists config w0 = ((ex, err), w1)"
    by (metis prod.exhaust)
  with databaseExists_plain [of w0 config] have q: "catalog w1 = catalog w0" by simp
  show ?case
    by (cases "IncludeData options"; cases err; cases ex)
       (simp_all add: d q lib_defs split: option.split)
qed

subsection \<open>generateRollbackScript\<close>

lemma generateRollbackScript_framed:
  "framed plain ''generateRollbackScript'' w (generateRollbackScript config f options w)"
  unfolding generateRollbackScript_def
  by (rule called_framed) (simp add: adds_def plain_def lib_defs split: option.split)

lemma generateRollbackScript_catalog:
  "catalog (snd (generateRollbackScript config f options w)) = catalog w"
  unfolding generateRollbackScript_def
  by (rule called_catalog) (simp add: lib_defs split: option.split)

subsection \<open>applySchema\<close>

lemma applySchema_framed:
  "framed (\<lambda>e. \<not> is_mark e) ''applySchema'' w (applySchema config f w)"
  unfolding applySchema_def
  by (rule called_framed) (simp add: adds_def lib_defs split: option.split)

lemma applySchema_catalog: "catalog (snd (applySchema config f w)) = catalog w"
  unfolding applySchema_def
  by (rule called_catalog) (simp add: lib_defs split: option.split)

subsection \<open>dropDatabaseIfExists, createDatabase, recreateDestinationDatabase\<close>

lemma dropDatabaseIfExists_framed:
  "framed (\<lambda>e. \<not> is_mark e) ''dropDatabaseIfExists'' w (dropDatabaseIfExists config w)"
  unfolding dropDatabaseIfExists_def
proof (rule called_framed, goal_cases)
  case (1 w0)
  let "adds _ _ ?r" = ?case
  obtain ex err w1 where d: "databaseExists config w0 = ((ex, err), w1)"
    by (metis prod.exhaust)
  with databaseExists_plain [of w0 config] have "adds plain w0 w1" by simp
  then have q: "adds (\<lambda>e. \<not> is_mark e) w0 w1"
    by (rule adds_mono) (simp add: plain_def)
  have "adds (\<lambda>e. \<not> is_mark e) w1 ?r"
    by (cases err; cases ex)
       (simp_all add: d adds_def lib_defs split: option.split)
  from adds_trans [OF q this] show ?case .
qed

lemma createDatabase_framed:
  "framed (\<lambda>e. \<not> is_mark e) ''createDatabase'' w (createDatabase config w)"
  unfolding createDatabase_def
  by (rule called_framed) (simp add: adds_def lib_defs split: option.split)

lemma createDatabase_exists:
  "fst (createDatabase config w) = None \<Longrightarrow>
   (maintenance_conn config, Database config) \<in> catalog (snd (createDatabase config w))"
  unfolding createDatabase_def
  by (simp add: called_def maintenance_conn_def lib_defs split: option.splits prod.splits)

lemma not_mark_irrelevant: "\<not> is_mark e \<Longrightarrow> \<not> guard_relevant e"
  by (cases e rule: guard_relevant.cases) simp_all

lemma not_destructive_irrelevant: "\<not> destructive e \<Longrightarrow> \<not> guard_relevant e"
  by (cases e rule: guard_relevant.cases) (auto simp: destructive_ops_def)

lemma recreateDestinationDatabase_framed:
  "framed (\<lambda>e. \<not> guard_relevant e) ''recreateDestinationDatabase'' w
     (recreateDestinationDatabase config w)"
  unfolding recreateDestinationDatabase_def
proof (rule called_framed, goal_cases)
  case (1 w0)
  obtain r1 w1 where d: "dropDatabaseIfExists config w0 = (r1, w1)"
    by (cases "dropDatabaseIfExists config w0")
  obtain r2 w2 where c: "createDatabase config w1 = (r2, w2)"
    by (cases "createDatabase config w1")
  have q1: "adds (\<lambda>e. \<not> guard_relevant e) w0 w1"
    using framed_adds [OF dropDatabaseIfExists_framed [of w0 config], of "\<lambda>e. \<not> guard_relevant e"] d
    by (simp add: not_mark_irrelevant)
  have q2: "adds (\<lambda>e. \<not> guard_relevant e) w1 w2"
    using framed_adds [OF createDatabase_framed [of w1 config], of "\<lambda>e. \<not> guard_relevant e"] c
    by (simp add: not_mark_irrelevant)
  show ?case
    using q1 adds_trans [OF q1 q2] by (cases r1; cases r2) (simp_all add: d c)
qed

lemma called_eq: "body (emit (Call n) w) = (r, w1) \<Longrightarrow> called n body w = (r, emit (Return n r) w1)"
  by (simp add: called_def)

lemma catalog_emit: "catalog (emit a w) = catalog w"
  by (simp add: emit_def)

lemma recreateDestinationDatabase_exists:
  assumes "fst (recreateDestinationDatabase config w) = None"
  shows "(maintenance_conn config, Database config) \<in> catalog (snd (recreateDestinationDatabase config w))"
proof -
  define w0 where "w0 = emit (Call ''recreateDestinationDatabase'') w"
  obtain r1 w1 where d: "dropDatabaseIfExists config w0 = (r1, w1)"
    by (cases "dropDatabaseIfExists config w0")
  obtain r2 w2 where c: "createDatabase config w1 = (r2, w2)"
    by (cases "createDatabase config w1")
  have e: "recreateDestinationDatabase config w =
           (case r1 of Some err \<Rightarrow> (r1, emit (Return ''recreateDestinationDatabase'' r1) w1)
            | None \<Rightarrow> (r2, emit (Return ''recreateDestinationDatabase'' r2) w2))"
    unfolding recreateDestinationDatabase_def
    by (cases r1; cases r2) (simp_all add: called_eq w0_def [symmetric] d c)
  from assms have r: "r1 = None \<and> r2 = None"
    by (cases r1; cases r2) (simp_all add: e)
  with createDatabase_exists [of config w1] c
  have "(maintenance_conn config, Database config) \<in> catalog w2" by simp
  with r show ?thesis
    by (simp add: e catalog_emit)
qed

lemma guard_irrelevant:
  "list_all (\<lambda>e. \<not> guard_relevant e) xs \<Longrightarrow>
   apply_after_recreate ok (xs @ ys) = apply_after_recreate ok ys"
proof (induction xs)
  case Nil
  show ?case by simp
next
  case (Cons x xs)
  then show ?case
    by (cases x rule: guard_relevant.cases) auto
qed

lemma guard_irrelevant_all:
  "list_all (\<lambda>e. \<not> guard_relevant e) xs \<Longrightarrow> apply_after_recreate ok xs"
  using guard_irrelevant [of xs ok "[]"] by simp

subsection \<open>The steps of the orchestrator\<close>

declare filepath_Join.simps [simp del]

lemma logger_Warning_quiet: "quiet w (logger_Warning m w)"
  by (simp add: quiet_def adds_def prim_defs)

lemma logger_Info_quiet: "quiet w (logger_Info m w)"
  by (simp add: quiet_def adds_def prim_defs)

lemma createDirectories_quiet: "quiet w (snd (createDirectories options w))"
  using createDirectories_plain [of w options]
  by (auto simp: quiet_def plain_def elim: adds_mono)

lemma exportSchema_quiet: "quiet w (snd (exportSchema config f options w))"
  by (rule framed_quiet [OF exportSchema_framed exportSchema_catalog])
     (simp add: destructive_ops_def)

lemma createDestinationBackup_quiet: "quiet w (snd (createDestinationBackup config f options w))"
  by (rule framed_quiet [OF createDestinationBackup_framed createDestinationBackup_catalog])
     (simp add: destructive_ops_def)

lemma generateRollbackScript_quiet: "quiet w (snd (generateRollbackScript config f options w))"
  by (rule framed_quiet [OF generateRollbackScript_framed generateRollbackScript_catalog])
     (simp add: destructive_ops_def)

lemma backupStep_quiet: "quiet w (snd (backupStep dest options ts w))"
proof (cases "CreateBackup options")
  case False
  then show ?thesis by (simp add: backupStep_def quiet_refl)
next
  case True
  show ?thesis
  proof (cases dest)
    case None
    with True show ?thesis by (simp add: backupStep_def quiet_refl)
  next
    case (Some d)
    define f where "f = filepath_Join [BackupDir options, ''backup_'' @ Database d @ ''_'' @ ts @ ''.sql'']"
    obtain r w1 where b: "createDestinationBackup d f options w = (r, w1)"
      by (cases "createDestinationBackup d f options w")
    with createDestinationBackup_quiet [of w d f options] have q: "quiet w w1" by simp
    show ?thesis
      using True Some b q quiet_trans [OF q logger_Warning_quiet]
      by (cases r) (simp_all add: backupStep_def f_def Let_def)
  qed
qed

lemma dryRunReport_quiet: "quiet w (snd (dryRunReport dest sf bf options w))"
proof (cases dest)
  case None
  then show ?thesis by (simp add: dryRunReport_def logger_Info_quiet)
next
  case (Some d)
  define w3 where "w3 = logger_Info (''2. Apply schema from: '' @ sf)
      (logger_Info (''1. Drop and recreate database: '' @ Database d)
        (logger_Info ''DRY RUN MODE - showing what would be done:'' w))"
  define w4 where "w4 = (if CreateBackup options \<and> bf \<noteq> []
      then logger_Info (''3. Backup created at: '' @ bf) w3 else w3)"
  have "quiet w w3"
    by (simp add: w3_def quiet_def adds_def prim_defs)
  then have q: "quiet w w4"
    unfolding w4_def using quiet_trans [OF _ logger_Info_quiet] by simp
  have e: "dryRunReport dest sf bf options w =
           (Return_value (fst (generateRollbackScript d bf options w4)),
            snd (generateRollbackScript d bf options w4))"
    using Some by (simp add: dryRunReport_def w4_def w3_def Let_def case_prod_beta)
  from quiet_trans [OF q generateRollbackScript_quiet [of w4 d bf options]]
  show ?thesis
    by (simp add: e)
qed

lemma migrateSteps_guard:
  "\<exists>evs. trace (snd (migrateSteps dest sf bf options w)) = trace w @ evs \<and>
         apply_after_recreate ok evs"
proof (cases dest)
  case None
  then show ?thesis by (simp add: migrateSteps_def emit_def)
next
  case (Some d)
  obtain r1 w1 where r: "recreateDestinationDatabase d w = (r1, w1)"
    by (cases "recreateDestinationDatabase d w")
  from recreateDestinationDatabase_framed [of w d] r obtain in1 where
    t1: "trace w1 = trace w @ (Call ''recreateDestinationDatabase'', None) # in1
                    @ [(Return ''recreateDestinationDatabase'' r1, None)]"
    and i1: "list_all (\<lambda>e. \<not> guard_relevant e) in1"
    by (auto simp: framed_def)
  show ?thesis
  proof (cases r1)
    case (Some e)
    with \<open>dest = Some d\<close> r t1 i1 show ?thesis
      by (simp add: migrateSteps_def guard_irrelevant)
  next
    case None
    obtain r2 w2 where a: "applySchema d sf w1 = (r2, w2)"
      by (cases "applySchema d sf w1")
    from applySchema_framed [of w1 d sf] a obtain in2 where
      t2: "trace w2 = trace w1 @ (Call ''applySchema'', None) # in2 @ [(Return ''applySchema'' r2, None)]"
      and "list_all (\<lambda>e. \<not> is_mark e) in2"
      by (auto simp: framed_def)
    then have i2: "list_all (\<lambda>e. \<not> guard_relevant e) in2"
      by (auto simp: list_all_iff not_mark_irrelevant)
    obtain r3 w3 where g: "generateRollbackScript d bf options w2 = (r3, w3)"
      by (cases "generateRollbackScript d bf options w2")
    from generateRollbackScript_quiet [of w2 d bf options] g obtain in3 where
      t3: "trace w3 = trace w2 @ in3" and "list_all (\<lambda>e. \<not> destructive e) in3"
      by (auto simp: quiet_def adds_def)
    then have i3: "list_all (\<lambda>e. \<not> guard_relevant e) in3"
      by (auto simp: list_all_iff not_destructive_irrelevant)
    show ?thesis
      using \<open>dest = Some d\<close> r None a g t1 t2 t3 i1 i2 i3
      by (cases r2; cases r3)
         (simp_all add: migrateSteps_def guard_irrelevant guard_irrelevant_all logger_Warning_def emit_def)
  qed
qed

lemma migrateSteps_exists:
  assumes "fst (migrateSteps (Some d) sf bf options w) = Return_value None"
  shows "(maintenance_conn d, Database d) \<in> catalog (snd (migrateSteps (Some d) sf bf options w))"
proof -
  obtain r1 w1 where r: "recreateDestinationDatabase d w = (r1, w1)"
    by (cases "recreateDestinationDatabase d w")
  obtain r2 w2 where a: "applySchema d sf w1 = (r2, w2)"
    by (cases "applySchema d sf w1")
  obtain r3 w3 where g: "generateRollbackScript d bf options w2 = (r3, w3)"
    by (cases "generateRollbackScript d bf options w2")
  from assms have n: "r1 = None \<and> r2 = None"
    by (cases r1; cases r2) (simp_all add: migrateSteps_def r a)
  with recreateDestinationDatabase_exists [of d w] r
  have "(maintenance_conn d, Database d) \<in> catalog w1" by simp
  with applySchema_catalog [of d sf w1] a generateRollbackScript_catalog [of d bf options w2] g
  have "(maintenance_conn d, Database d) \<in> catalog w3" by simp
  with n r a g show ?thesis
    by (cases r3) (simp_all add: migrateSteps_def logger_Warning_def emit_def)
qed

lemma performSchemaMigration_split:
  "\<exists>w3. quiet w w3 \<and>
     ((snd (performSchemaMigration source dest options w) = w3 \<and>
       fst (performSchemaMigration source dest options w) \<noteq> Return_value None) \<or>
      (\<exists>sf bf. performSchemaMigration source dest options w =
         (if DryRun options then dryRunReport dest sf bf options w3
          else migrateSteps dest sf bf options w3)))"
proof -
  define ts where "ts = Format_20060102_150405 (time_Now w)"
  define sf where "sf = filepath_Join [OutputDir options, ''schema_'' @ Database source @ ''_'' @ ts @ ''.sql'']"
  obtain r1 w1 where c: "createDirectories options w = (r1, w1)"
    by (cases "createDirectories options w")
  obtain r2 w2 where e: "exportSchema source sf options w1 = (r2, w2)"
    by (cases "exportSchema source sf options w1")
  obtain r3 w3 where b: "backupStep dest options ts w2 = (r3, w3)"
    by (cases "backupStep dest options ts w2")
  have q1: "quiet w w1" using createDirectories_quiet [of w options] c by simp
  have q2: "quiet w w2" using quiet_trans [OF q1 exportSchema_quiet [of w1 source sf options]] e by simp
  have q3: "quiet w w3" using quiet_trans [OF q2 backupStep_quiet [of w2 dest options ts]] b by simp
  have p: "performSchemaMigration source dest options w =
        (case r1 of Some err \<Rightarrow> (Return_value (Some (''failed to create directories: '' @ err)), w1)
         | None \<Rightarrow>
            (case r2 of Some err \<Rightarrow> (Return_value (Some (''failed to export schema: '' @ err)), w2)
             | None \<Rightarrow>
                (case r3 of None \<Rightarrow> (Panic, w3)
                 | Some bf \<Rightarrow> if DryRun options then dryRunReport dest sf bf options w3
                              else migrateSteps dest sf bf options w3)))"
    using c e b
    by (simp add: performSchemaMigration_def Let_def ts_def sf_def split: option.split)
  show ?thesis
  proof (cases r1)
    case (Some err)
    with p q1 show ?thesis by auto
  next
    case None
    note r1 = this
    show ?thesis
    proof (cases r2)
      case (Some err)
      with p r1 q2 show ?thesis by auto
    next
      case None
      note r2 = this
      show ?thesis
      proof (cases r3)
        case None
        with p r1 r2 q3 show ?thesis by auto
      next
        case (Some bf)
        with p r1 r2 have "performSchemaMigration source dest options w =
           (if DryRun options then dryRunReport dest sf bf options w3
            else migrateSteps dest sf bf options w3)" by simp
        with q3 show ?thesis by blast
      qed
    qed
  qed
qed

lemma dry_run_quiet:
  assumes "DryRun options"
  shows "quiet w (snd (performSchemaMigration source dest options w))"
proof -
  from performSchemaMigration_split [of w source dest options] obtain w3 where
    q: "quiet w w3" and
    c: "snd (performSchemaMigration source dest options w) = w3 \<or>
        (\<exists>sf bf. performSchemaMigration source dest options w =
           (if DryRun options then dryRunReport dest sf bf options w3
            else migrateSteps dest sf bf options w3))"
    by blast
  from c show ?thesis
  proof
    assume "snd (performSchemaMigration source dest options w) = w3"
    with q show ?thesis by simp
  next
    assume "\<exists>sf bf. performSchemaMigration source dest options w =
           (if DryRun options then dryRunReport dest sf bf options w3
            else migrateSteps dest sf bf options w3)"
    then obtain sf bf where "performSchemaMigration source dest options w = dryRunReport dest sf bf options w3"
      using assms by auto
    with quiet_trans [OF q dryRunReport_quiet [of w3 dest sf bf options]] show ?thesis by simp
  qed
qed

lemma quiet_guard:
  assumes "quiet w w3" and "trace w' = trace w3 @ evs" and "apply_after_recreate ok evs"
  shows "apply_after_recreate ok (events_since w w')"
proof -
  from assms(1) obtain pre where t: "trace w3 = trace w @ pre"
    and "list_all (\<lambda>e. \<not> destructive e) pre"
    by (auto simp: quiet_def adds_def)
  then have "list_all (\<lambda>e. \<not> guard_relevant e) pre"
    by (auto simp: list_all_iff not_destructive_irrelevant)
  with t assms(2,3) show ?thesis
    by (simp add: events_since_def guard_irrelevant)
qed

lemma run_guard:
  "apply_after_recreate ok (events_since w (snd (performSchemaMigration source dest options w)))"
proof -
  from performSchemaMigration_split [of w source dest options] obtain w3 where
    q: "quiet w w3" and
    c: "snd (performSchemaMigration source dest options w) = w3 \<or>
        (\<exists>sf bf. performSchemaMigration source dest options w =
           (if DryRun options then dryRunReport dest sf bf options w3
            else migrateSteps dest sf bf options w3))"
    by blast
  from c show ?thesis
  proof
    assume "snd (performSchemaMigration source dest options w) = w3"
    with quiet_guard [OF q, of w3 "[]" ok] show ?thesis by simp
  next
    assume "\<exists>sf bf. performSchemaMigration source dest options w =
           (if DryRun options then dryRunReport dest sf bf options w3
            else migrateSteps dest sf bf options w3)"
    then obtain sf bf where p: "performSchemaMigration source dest options w =
           (if DryRun options then dryRunReport dest sf bf options w3
            else migrateSteps dest sf bf options w3)" by blast
    show ?thesis
    proof (cases "DryRun options")
      case True
      from dryRunReport_quiet [of w3 dest sf bf options] obtain evs where
        "trace (snd (dryRunReport dest sf bf options w3)) = trace w3 @ evs"
        and "list_all (\<lambda>e. \<not> destructive e) evs"
        by (auto simp: quiet_def adds_def)
      moreover from this have "apply_after_recreate ok evs"
        by (auto simp: list_all_iff not_destructive_irrelevant intro!: guard_irrelevant_all)
      ultimately show ?thesis
        using quiet_guard [OF q] p True by simp
    next
      case False
      from migrateSteps_guard [of dest sf bf options w3 ok] obtain evs where
        "trace (snd (migrateSteps dest sf bf options w3)) = trace w3 @ evs"
        and "apply_after_recreate ok evs" by blast
      then show ?thesis
        using quiet_guard [OF q] p False by simp
    qed
  qed
qed

lemma run_success_exists:
  assumes "fst (performSchemaMigration source (Some d) options w) = Return_value None"
    and "\<not> DryRun options"
  shows "(maintenance_conn d, Database d) \<in> catalog (snd (performSchemaMigration source (Some d) options w))"
proof -
  from performSchemaMigration_split [of w source "Some d" options] assms obtain w3 sf bf where
    "performSchemaMigration source (Some d) options w = migrateSteps (Some d) sf bf options w3"
    by auto
  with migrateSteps_exists [of d sf bf options w3] assms(1) show ?thesis by simp
qed

subsection \<open>Runs in an obliging world\<close>

lemma obliging_emit: "obliging (emit a w) = obliging w"
  by (simp add: obliging_def emit_def)

lemma createDirectories_loop_obliging:
  "obliging w \<Longrightarrow> fst (createDirectories_loop ds w) = None \<and> obliging (snd (createDirectories_loop ds w))"
proof (induction ds arbitrary: w)
  case Nil
  then show ?case by simp
next
  case (Cons d ds)
  from Cons.prems have "fst (os_MkdirAll d 493 w) = None \<and> obliging (snd (os_MkdirAll d 493 w))"
    by (simp add: obliging_def lib_defs)
  with Cons.IH [of "snd (os_MkdirAll d 493 w)"] show ?case
    by (cases "os_MkdirAll d 493 w") simp
qed

lemma createDirectories_obliging:
  "obliging w \<Longrightarrow> fst (createDirectories options w) = None \<and> obliging (snd (createDirectories options w))"
  by (simp add: createDirectories_def Let_def createDirectories_loop_obliging)

lemma exportSchema_obliging:
  "obliging w \<Longrightarrow> fst (exportSchema config f options w) = None \<and> obliging (snd (exportSchema config f options w))"
  by (cases "IncludeRoles options") (simp_all add: exportSchema_def called_def obliging_def lib_defs)

lemma databaseExists_obliging:
  "obliging w \<Longrightarrow> databaseExists config w =
     (((maintenance_conn config, Database config) \<in> catalog w, None), snd (databaseExists config w)) \<and>
     obliging (snd (databaseExists config w)) \<and> catalog (snd (databaseExists config w)) = catalog w"
  by (simp add: databaseExists_def obliging_def maintenance_conn_def lib_defs)

lemma called_obliging:
  assumes "\<And>w0. obliging w0 \<Longrightarrow> fst (body w0) = None \<and> obliging (snd (body w0))"
    and "obliging w"
  shows "fst (called n body w) = None \<and> obliging (snd (called n body w))"
  using assms(1) [of "emit (Call n) w"] assms(2)
  by (cases "body (emit (Call n) w)") (simp add: called_def obliging_emit)

lemma createDestinationBackup_obliging:
  assumes "obliging w"
  shows "fst (createDestinationBackup config f options w) = None \<and>
         obliging (snd (createDestinationBackup config f options w))"
  unfolding createDestinationBackup_def
proof (rule called_obliging [OF _ assms], goal_cases)
  case (1 w0)
  obtain ex err w1 where d: "databaseExists config w0 = ((ex, err), w1)"
    by (metis prod.exhaust)
  with databaseExists_obliging [OF 1, of config] have e: "err = None" and o1: "obliging w1"
    by simp_all
  show ?case
    using o1
    by (cases ex; cases "IncludeData options")
       (simp_all add: d e obliging_def lib_defs)
qed

lemma applySchema_obliging:
  "obliging w \<Longrightarrow> fst (applySchema config f w) = None \<and> obliging (snd (applySchema config f w))"
  by (simp add: applySchema_def called_def obliging_def lib_defs)

lemma generateRollbackScript_obliging:
  "obliging w \<Longrightarrow> fst (generateRollbackScript config f options w) = None \<and>
     obliging (snd (generateRollbackScript config f options w))"
  by (simp add: generateRollbackScript_def called_def obliging_def lib_defs)

lemma dropDatabaseIfExists_obliging:
  assumes "obliging w"
  shows "fst (dropDatabaseIfExists config w) = None \<and> obliging (snd (dropDatabaseIfExists config w))"
  unfolding dropDatabaseIfExists_def
proof (rule called_obliging [OF _ assms], goal_cases)
  case (1 w0)
  obtain ex err w1 where d: "databaseExists config w0 = ((ex, err), w1)"
    by (metis prod.exhaust)
  with databaseExists_obliging [OF 1, of config] have e: "err = None" and o1: "obliging w1"
    by simp_all
  show ?case
    using o1
    by (cases ex) (simp_all add: d e obliging_def lib_defs)
qed

lemma createDatabase_obliging:
  "obliging w \<Longrightarrow> fst (createDatabase config w) = None \<and> obliging (snd (createDatabase config w))"
  by (simp add: createDatabase_def called_def obliging_def lib_defs)

lemma recreateDestinationDatabase_obliging:
  assumes "obliging w"
  shows "fst (recreateDestinationDatabase config w) = None \<and>
         obliging (snd (recreateDestinationDatabase config w))"
  unfolding recreateDestinationDatabase_def
proof (rule called_obliging [OF _ assms], goal_cases)
  case (1 w0)
  obtain r1 w1 where d: "dropDatabaseIfExists config w0 = (r1, w1)"
    by (cases "dropDatabaseIfExists config w0")
  with dropDatabaseIfExists_obliging [OF 1, of config] have r1: "r1 = None" and o1: "obliging w1"
    by simp_all
  obtain r2 w2 where c: "createDatabase config w1 = (r2, w2)"
    by (cases "createDatabase config w1")
  with createDatabase_obliging [OF o1, of config] have r2: "r2 = None" and o2: "obliging w2"
    by simp_all
  show ?case
    by (simp add: d c r1 r2 o2)
qed

lemma backupStep_obliging:
  assumes "obliging w"
  shows "obliging (snd (backupStep dest options ts w)) \<and>
         (dest \<noteq> None \<longrightarrow> fst (backupStep dest options ts w) \<noteq> None)"
proof (cases "CreateBackup options")
  case False
  with assms show ?thesis by (simp add: backupStep_def)
next
  case True
  show ?thesis
  proof (cases dest)
    case None
    with True assms show ?thesis by (simp add: backupStep_def)
  next
    case (Some d)
    define f where "f = filepath_Join [BackupDir options, ''backup_'' @ Database d @ ''_'' @ ts @ ''.sql'']"
    from createDestinationBackup_obliging [OF assms, of d f options]
    show ?thesis
      using True Some
      by (cases "createDestinationBackup d f options w")
         (simp add: backupStep_def f_def Let_def)
  qed
qed

lemma migrateSteps_obliging:
  assumes "obliging w"
  shows "fst (migrateSteps (Some d) sf bf options w) = Return_value None"
proof -
  obtain r1 w1 where r: "recreateDestinationDatabase d w = (r1, w1)"
    by (cases "recreateDestinationDatabase d w")
  with recreateDestinationDatabase_obliging [OF assms, of d] have r1: "r1 = None" and o1: "obliging w1"
    by simp_all
  obtain r2 w2 where a: "applySchema d sf w1 = (r2, w2)"
    by (cases "applySchema d sf w1")
  with applySchema_obliging [OF o1, of d sf] have r2: "r2 = None" and o2: "obliging w2"
    by simp_all
  obtain r3 w3 where g: "generateRollbackScript d bf options w2 = (r3, w3)"
    by (cases "generateRollbackScript d bf options w2")
  with generateRollbackScript_obliging [OF o2, of d bf options] have r3: "r3 = None"
    by simp
  show ?thesis
    by (simp add: migrateSteps_def r a g r1 r2 r3)
qed

lemma performSchemaMigration_obliging:
  assumes "obliging w" and "\<not> DryRun options"
  shows "fst (performSchemaMigration source (Some d) options w) = Return_value None"
proof -
  define ts where "ts = Format_20060102_150405 (time_Now w)"
  define sf where "sf = filepath_Join [OutputDir options, ''schema_'' @ Database source @ ''_'' @ ts @ ''.sql'']"
  obtain r1 w1 where c: "createDirectories options w = (r1, w1)"
    by (cases "createDirectories options w")
  with createDirectories_obliging [OF assms(1), of options] have r1: "r1 = None" and o1: "obliging w1"
    by simp_all
  obtain r2 w2 where e: "exportSchema source sf options w1 = (r2, w2)"
    by (cases "exportSchema source sf options w1")
  with exportSchema_obliging [OF o1, of source sf options] have r2: "r2 = None" and o2: "obliging w2"
    by simp_all
  obtain r3 w3 where b: "backupStep (Some d) options ts w2 = (r3, w3)"
    by (cases "backupStep (Some d) options ts w2")
  with backupStep_obliging [OF o2, of "Some d" options ts] obtain bf where
    r3: "r3 = Some bf" and o3: "obliging w3"
    by auto
  show ?thesis
    using c e b r1 r2 r3 assms(2) migrateSteps_obliging [OF o3, of d sf bf options]
    by (simp add: performSchemaMigration_def Let_def ts_def sf_def)
qed

lemma migrateSteps_success_applies:
  assumes "fst (migrateSteps (Some d) sf bf options w) = Return_value None"
  shows "(Call ''applySchema'', None) \<in> set (events_since w (snd (migrateSteps (Some d) sf bf options w)))"
proof -
  obtain r1 w1 where r: "recreateDestinationDatabase d w = (r1, w1)"
    by (cases "recreateDestinationDatabase d w")
  obtain r2 w2 where a: "applySchema d sf w1 = (r2, w2)"
    by (cases "applySchema d sf w1")
  obtain r3 w3 where g: "generateRollbackScript d bf options w2 = (r3, w3)"
    by (cases "generateRollbackScript d bf options w2")
  from assms have n: "r1 = None \<and> r2 = None"
    by (cases r1; cases r2) (simp_all add: migrateSteps_def r a)
  from recreateDestinationDatabase_framed [of w d] r obtain e1 where
    t1: "trace w1 = trace w @ e1" by (auto simp: framed_def)
  from applySchema_framed [of w1 d sf] a obtain e2 where
    t2: "trace w2 = trace w1 @ (Call ''applySchema'', None) # e2" by (auto simp: framed_def)
  from generateRollbackScript_quiet [of w2 d bf options] g obtain e3 where
    t3: "trace w3 = trace w2 @ e3" by (auto simp: quiet_def adds_def)
  show ?thesis
    using n r a g t1 t2 t3
    by (cases r3) (simp_all add: migrateSteps_def events_since_def logger_Warning_def emit_def)
qed

lemma run_success_applies:
  assumes "fst (performSchemaMigration source (Some d) options w) = Return_value None"
    and "\<not> DryRun options"
  shows "(Call ''applySchema'', None) \<in>
           set (events_since w (snd (performSchemaMigration source (Some d) options w)))"
proof -
  from performSchemaMigration_split [of w source "Some d" options] assms obtain w3 sf bf where
    q: "quiet w w3" and
    p: "performSchemaMigration source (Some d) options w = migrateSteps (Some d) sf bf options w3"
    by auto
  from q obtain pre where t: "trace w3 = trace w @ pre" by (auto simp: quiet_def adds_def)
  from migrateSteps_guard [of "Some d" sf bf options w3 True] obtain evs where
    t': "trace (snd (migrateSteps (Some d) sf bf options w3)) = trace w3 @ evs" by blast
  from migrateSteps_success_applies [of d sf bf options w3] assms(1) p
  have "(Call ''applySchema'', None) \<in> set evs"
    by (simp add: events_since_def t')
  then show ?thesis
    by (simp add: p events_since_def t t')
qed

subsection \<open>The course of a run\<close>

lemma performSchemaMigration_cases [case_names dirs_fail export_fail panic dry migrate]:
  obtains
    err w1 where "createDirectories options w = (Some err, w1)"
      and "performSchemaMigration source dest options w =
             (Return_value (Some (''failed to create directories: '' @ err)), w1)"
  | w1 err w2 where "createDirectories options w = (None, w1)"
      and "exportSchema source (schema_path options source w) options w1 = (Some err, w2)"
      and "performSchemaMigration source dest options w =
             (Return_value (Some (''failed to export schema: '' @ err)), w2)"
  | w1 w2 w3 where "createDirectories options w = (None, w1)"
      and "exportSchema source (schema_path options source w) options w1 = (None, w2)"
      and "backupStep dest options (run_timestamp w) w2 = (None, w3)"
      and "performSchemaMigration source dest options w = (Panic, w3)"
  | w1 w2 bf w3 where "createDirectories options w = (None, w1)"
      and "exportSchema source (schema_path options source w) options w1 = (None, w2)"
      and "backupStep dest options (run_timestamp w) w2 = (Some bf, w3)"
      and "DryRun options"
      and "performSchemaMigration source dest options w =
             dryRunReport dest (schema_path options source w) bf options w3"
  | w1 w2 bf w3 where "createDirectories options w = (None, w1)"
      and "exportSchema source (schema_path options source w) options w1 = (None, w2)"
      and "backupStep dest options (run_timestamp w) w2 = (Some bf, w3)"
      and "\<not> DryRun options"
      and "performSchemaMigration source dest options w =
             migrateSteps dest (schema_path options source w) bf options w3"
proof -
  obtain r1 w1 where c: "createDirectories options w = (r1, w1)"
    by (cases "createDirectories options w")
  obtain r2 w2 where e: "exportSchema source (schema_path options source w) options w1 = (r2, w2)"
    by (cases "exportSchema source (schema_path options source w) options w1")
  obtain r3 w3 where b: "backupStep dest options (run_timestamp w) w2 = (r3, w3)"
    by (cases "backupStep dest options (run_timestamp w) w2")
  have p: "performSchemaMigration source dest options w =
        (case r1 of Some err \<Rightarrow> (Return_value (Some (''failed to create directories: '' @ err)), w1)
         | None \<Rightarrow>
            (case r2 of Some err \<Rightarrow> (Return_value (Some (''failed to export schema: '' @ err)), w2)
             | None \<Rightarrow>
                (case r3 of None \<Rightarrow> (Panic, w3)
                 | Some bf \<Rightarrow> if DryRun options
                              then dryRunReport dest (schema_path options source w) bf options w3
                              else migrateSteps dest (schema_path options source w) bf options w3)))"
    using c e b
    by (simp add: performSchemaMigration_def Let_def schema_path_def run_timestamp_def
        split: option.split)
  show thesis
  proof (cases r1)
    case (Some err)
    with p c that(1) show thesis by simp
  next
    case None
    note r1 = this
    show thesis
    proof (cases r2)
      case (Some err)
      with p c e r1 that(2) show thesis by simp
    next
      case None
      note r2 = this
      show thesis
      proof (cases r3)
        case None
        with p c e b r1 r2 that(3) show thesis by simp
      next
        case (Some bf)
        show thesis
        proof (cases "DryRun options")
          case True
          with p c e b r1 r2 Some that(4) show thesis by simp
        next
          case False
          with p c e b r1 r2 Some that(5) show thesis by simp
        qed
      qed
    qed
  qed
qed

lemma backupStep_cases [case_names no_dest disabled failed made]:
  obtains "CreateBackup options" and "dest = None"
      and "backupStep dest options ts w = (None, w)"
  | "\<not> CreateBackup options" and "backupStep dest options ts w = (Some [], w)"
  | d err w1 where "CreateBackup options" and "dest = Some d"
      and "createDestinationBackup d
             (filepath_Join [BackupDir options, ''backup_'' @ Database d @ ''_'' @ ts @ ''.sql''])
             options w = (Some err, w1)"
      and "backupStep dest options ts w =
             (Some (filepath_Join [BackupDir options, ''backup_'' @ Database d @ ''_'' @ ts @ ''.sql'']),
              logger_Warning (''Backup creation failed (continuing): '' @ err) w1)"
  | d w1 where "CreateBackup options" and "dest = Some d"
      and "createDestinationBackup d
             (filepath_Join [BackupDir options, ''backup_'' @ Database d @ ''_'' @ ts @ ''.sql''])
             options w = (None, w1)"
      and "backupStep dest options ts w =
             (Some (filepath_Join [BackupDir options, ''backup_'' @ Database d @ ''_'' @ ts @ ''.sql'']),
              w1)"
proof (cases "CreateBackup options")
  case False
  with that(2) show thesis by (simp add: backupStep_def)
next
  case True
  show thesis
  proof (cases dest)
    case None
    with True that(1) show thesis by (simp add: backupStep_def)
  next
    case (Some d)
    define f where "f = filepath_Join [BackupDir options, ''backup_'' @ Database d @ ''_'' @ ts @ ''.sql'']"
    obtain r w1 where b: "createDestinationBackup d f options w = (r, w1)"
      by (cases "createDestinationBackup d f options w")
    show thesis
    proof (cases r)
      case None
      with True Some b that(4) [of d w1] show thesis
        by (simp add: backupStep_def Let_def f_def)
    next
      case (Some err)
      with True \<open>dest = Some d\<close> b that(3) [of d err w1] show thesis
        by (simp add: backupStep_def Let_def f_def)
    qed
  qed
qed

lemma quietD:
  assumes "quiet w w'"
  obtains evs where "trace w' = trace w @ evs" and "list_all (\<lambda>e. \<not> destructive e) evs"
    and "catalog w' = catalog w"
  using assms by (auto simp: quiet_def adds_def)

lemma framedD:
  assumes "framed P n w (r, w')"
  obtains inner where "trace w' = trace w @ (Call n, None) # inner @ [(Return n r, None)]"
    and "list_all P inner"
  using assms by (auto simp: framed_def)

lemma plain_not_mark: "list_all plain evs \<Longrightarrow> (Call n, r) \<notin> set evs \<and> (Return n e, r) \<notin> set evs"
  by (auto simp: list_all_iff plain_def)

lemma backupStep_calls:
  assumes "CreateBackup options"
  shows "(Call ''createDestinationBackup'', None)
           \<in> set (events_since w (snd (backupStep (Some d) options ts w)))"
proof (cases rule: backupStep_cases [of options "Some d" ts w])
  case no_dest
  then show ?thesis by simp
next
  case disabled
  with assms show ?thesis by simp
next
  case (failed d' err w1)
  have "framed plain ''createDestinationBackup'' w (Some err, w1)"
    unfolding failed(3) [symmetric] by (rule createDestinationBackup_framed)
  then obtain inner where
    "trace w1 = trace w @ (Call ''createDestinationBackup'', None) # inner
                @ [(Return ''createDestinationBackup'' (Some err), None)]"
    by (auto simp: framed_def)
  with failed(4) show ?thesis
    by (simp add: events_since_def logger_Warning_def emit_def)
next
  case (made d' w1)
  have "framed plain ''createDestinationBackup'' w (None, w1)"
    unfolding made(3) [symmetric] by (rule createDestinationBackup_framed)
  then obtain inner where
    "trace w1 = trace w @ (Call ''createDestinationBackup'', None) # inner
                @ [(Return ''createDestinationBackup'' None, None)]"
    by (auto simp: framed_def)
  with made(4) show ?thesis
    by (simp add: events_since_def)
qed

lemma dryRunReport_calls:
  "(Call ''generateRollbackScript'', None)
     \<in> set (events_since w (snd (dryRunReport (Some d) sf bf options w)))"
proof -
  define w3 where "w3 = logger_Info (''2. Apply schema from: '' @ sf)
      (logger_Info (''1. Drop and recreate database: '' @ Database d)
        (logger_Info ''DRY RUN MODE - showing what would be done:'' w))"
  define w4 where "w4 = (if CreateBackup options \<and> bf \<noteq> []
      then logger_Info (''3. Backup created at: '' @ bf) w3 else w3)"
  have "\<exists>pre. trace w3 = trace w @ pre"
    by (simp add: w3_def prim_defs)
  then have "\<exists>pre. trace w4 = trace w @ pre"
    by (auto simp: w4_def prim_defs)
  then obtain pre where t4: "trace w4 = trace w @ pre" by blast
  have e: "dryRunReport (Some d) sf bf options w =
           (Return_value (fst (generateRollbackScript d bf options w4)),
            snd (generateRollbackScript d bf options w4))"
    by (simp add: dryRunReport_def w4_def w3_def Let_def case_prod_beta)
  obtain r w5 where g: "generateRollbackScript d bf options w4 = (r, w5)"
    by (cases "generateRollbackScript d bf options w4")
  from generateRollbackScript_framed [of w4 d bf options] g obtain inner where
    "trace w5 = trace w4 @ (Call ''generateRollbackScript'', None) # inner
                @ [(Return ''generateRollbackScript'' r, None)]"
    by (auto simp: framed_def)
  with t4 show ?thesis
    by (simp add: e g events_since_def)
qed

lemma dry_run_marks:
  assumes dry: "DryRun options"
  shows "(fst (createDirectories options w) = None \<longrightarrow>
            (Call ''exportSchema'', None)
              \<in> set (events_since w (snd (performSchemaMigration source dest options w)))) \<and>
         (\<forall>d. dest = Some d \<and> CreateBackup options \<and>
              (Return ''exportSchema'' None, None)
                \<in> set (events_since w (snd (performSchemaMigration source dest options w))) \<longrightarrow>
              (Call ''createDestinationBackup'', None)
                \<in> set (events_since w (snd (performSchemaMigration source dest options w))) \<and>
              (Call ''generateRollbackScript'', None)
                \<in> set (events_since w (snd (performSchemaMigration source dest options w))))"
proof (cases rule: performSchemaMigration_cases [of options w source dest])
  case (dirs_fail err w1)
  from createDirectories_plain [of w options] dirs_fail(1) obtain pre where
    "trace w1 = trace w @ pre" and "list_all plain pre"
    by (auto simp: adds_def)
  with dirs_fail plain_not_mark [of pre] show ?thesis
    by (simp add: events_since_def)
next
  case (export_fail w1 err w2)
  from createDirectories_plain [of w options] export_fail(1) obtain pre where
    t1: "trace w1 = trace w @ pre" and p1: "list_all plain pre"
    by (auto simp: adds_def)
  have "framed plain ''exportSchema'' w1 (Some err, w2)"
    unfolding export_fail(2) [symmetric] by (rule exportSchema_framed)
  then obtain inner where
    t2: "trace w2 = trace w1 @ (Call ''exportSchema'', None) # inner
                    @ [(Return ''exportSchema'' (Some err), None)]"
    and p2: "list_all plain inner"
    by (auto simp: framed_def)
  from export_fail t1 t2 plain_not_mark [OF p1] plain_not_mark [OF p2] show ?thesis
    by (simp add: events_since_def)
next
  case (panic w1 w2 w3)
  from createDirectories_plain [of w options] panic(1) obtain pre where
    t1: "trace w1 = trace w @ pre"
    by (auto simp: adds_def)
  have "framed plain ''exportSchema'' w1 (None, w2)"
    unfolding panic(2) [symmetric] by (rule exportSchema_framed)
  then obtain inner where
    t2: "trace w2 = trace w1 @ (Call ''exportSchema'', None) # inner
                    @ [(Return ''exportSchema'' None, None)]"
    by (auto simp: framed_def)
  from backupStep_quiet [of w2 dest options "run_timestamp w"] panic(3) obtain e3 where
    t3: "trace w3 = trace w2 @ e3"
    by (auto simp: quiet_def adds_def)
  have "dest = None"
    using panic(3) by (cases rule: backupStep_cases [of options dest "run_timestamp w" w2]) simp_all
  with panic t1 t2 t3 show ?thesis
    by (simp add: events_since_def)
next
  case (dry w1 w2 bf w3)
  from createDirectories_plain [of w options] dry(1) obtain pre where
    t1: "trace w1 = trace w @ pre"
    by (auto simp: adds_def)
  have "framed plain ''exportSchema'' w1 (None, w2)"
    unfolding dry(2) [symmetric] by (rule exportSchema_framed)
  then obtain inner where
    t2: "trace w2 = trace w1 @ (Call ''exportSchema'', None) # inner
                    @ [(Return ''exportSchema'' None, None)]"
    by (auto simp: framed_def)
  from backupStep_quiet [of w2 dest options "run_timestamp w"] dry(3) obtain e3 where
    t3: "trace w3 = trace w2 @ e3"
    by (auto simp: quiet_def adds_def)
  from dryRunReport_quiet [of w3 dest _ bf options] obtain e4 where
    t4: "trace (snd (dryRunReport dest (schema_path options source w) bf options w3)) = trace w3 @ e4"
    by (auto simp: quiet_def adds_def)
  have b: "CreateBackup options \<Longrightarrow> dest = Some d \<Longrightarrow> (Call ''createDestinationBackup'', None) \<in> set e3" for d
    using backupStep_calls [of options w2 d "run_timestamp w"] dry(3) t3
    by (simp add: events_since_def)
  have g: "dest = Some d \<Longrightarrow> (Call ''generateRollbackScript'', None) \<in> set e4" for d
    using dryRunReport_calls [of w3 d "schema_path options source w" bf options] t4
    by (simp add: events_since_def)
  from dry t1 t2 t3 t4 b g show ?thesis
    by (auto simp: events_since_def)
next
  case (migrate w1 w2 bf w3)
  with dry show ?thesis by simp
qed

lemma obliging_export_returns:
  assumes "obliging w"
  shows "(Return ''exportSchema'' None, None)
           \<in> set (events_since w (snd (performSchemaMigration source dest options w)))"
proof -
  obtain r1 w1 where c: "createDirectories options w = (r1, w1)"
    by (cases "createDirectories options w")
  with createDirectories_obliging [OF assms, of options] have r1: "r1 = None" and o1: "obliging w1"
    by simp_all
  from createDirectories_plain [of w options] c obtain pre where
    t1: "trace w1 = trace w @ pre"
    by (auto simp: adds_def)
  have x: "fst (exportSchema source (schema_path options source w) options w1) = None"
    using exportSchema_obliging [OF o1] by simp
  have t: "exportSchema source (schema_path options source w) options w1 = (None, w2) \<Longrightarrow>
        \<exists>inner. trace w2 = trace w1 @ (Call ''exportSchema'', None) # inner
                    @ [(Return ''exportSchema'' None, None)]" for w2
  proof -
    assume a: "exportSchema source (schema_path options source w) options w1 = (None, w2)"
    have "framed plain ''exportSchema'' w1 (None, w2)"
      unfolding a [symmetric] by (rule exportSchema_framed)
    then show ?thesis by (auto simp: framed_def)
  qed
  show ?thesis
  proof (cases rule: performSchemaMigration_cases [of options w source dest])
    case (dirs_fail err w1')
    with c r1 show ?thesis by simp
  next
    case (export_fail w1' err w2)
    with c x show ?thesis by simp
  next
    case (panic w1' w2 w3)
    with c have "w1' = w1" by simp
    with panic t [of w2] obtain inner where
      t2: "trace w2 = trace w1 @ (Call ''exportSchema'', None) # inner
                    @ [(Return ''exportSchema'' None, None)]" by blast
    from backupStep_quiet [of w2 dest options "run_timestamp w"] panic(3) obtain e3 where
      t3: "trace w3 = trace w2 @ e3"
      by (auto simp: quiet_def adds_def)
    from panic(4) t1 t2 t3 show ?thesis
      by (simp add: events_since_def)
  next
    case (dry w1' w2 bf w3)
    with c have "w1' = w1" by simp
    with dry t [of w2] obtain inner where
      t2: "trace w2 = trace w1 @ (Call ''exportSchema'', None) # inner
                    @ [(Return ''exportSchema'' None, None)]" by blast
    from backupStep_quiet [of w2 dest options "run_timestamp w"] dry(3) obtain e3 where
      t3: "trace w3 = trace w2 @ e3"
      by (auto simp: quiet_def adds_def)
    from dryRunReport_quiet [of w3 dest _ bf options] obtain e4 where
      t4: "trace (snd (dryRunReport dest (schema_path options source w) bf options w3)) = trace w3 @ e4"
      by (auto simp: quiet_def adds_def)
    from dry(5) t1 t2 t3 t4 show ?thesis
      by (simp add: events_since_def)
  next
    case (migrate w1' w2 bf w3)
    with c have "w1' = w1" by simp
    with migrate t [of w2] obtain inner where
      t2: "trace w2 = trace w1 @ (Call ''exportSchema'', None) # inner
                    @ [(Return ''exportSchema'' None, None)]" by blast
    from backupStep_quiet [of w2 dest options "run_timestamp w"] migrate(3) obtain e3 where
      t3: "trace w3 = trace w2 @ e3"
      by (auto simp: quiet_def adds_def)
    from migrateSteps_guard [of dest _ bf options w3 True] obtain e4 where
      t4: "trace (snd (migrateSteps dest (schema_path options source w) bf options w3)) = trace w3 @ e4"
      by blast
    from migrate(5) t1 t2 t3 t4 show ?thesis
      by (simp add: events_since_def)
  qed
qed

lemma no_dest_marks:
  "list_all (\<lambda>e. fst e \<noteq> Call ''createDestinationBackup'' \<and> fst e \<noteq> Call ''generateRollbackScript'')
     (events_since w (snd (performSchemaMigration source None options w)))"
proof -
  let ?P = "\<lambda>e::event. fst e \<noteq> Call ''createDestinationBackup'' \<and> fst e \<noteq> Call ''generateRollbackScript''"
  have pl: "plain e \<Longrightarrow> ?P e" for e
    by (cases e rule: is_mark.cases) (simp_all add: plain_def)
  have d: "adds ?P w0 (snd (createDirectories options w0))" for w0
    using createDirectories_plain [of w0 options] pl by (auto elim: adds_mono)
  have x: "adds ?P w0 (snd (exportSchema source f options w0))" for w0 f
    by (rule framed_adds [OF exportSchema_framed]) (simp_all add: pl)
  have b: "snd (backupStep None options ts w0) = w0" for ts w0
    by (simp add: backupStep_def)
  show ?thesis
  proof (cases rule: performSchemaMigration_cases [of options w source None])
    case (dirs_fail err w1)
    with d [of w] show ?thesis by (auto dest: adds_events_since)
  next
    case (export_fail w1 err w2)
    from d [of w] export_fail(1) have "adds ?P w w1" by simp
    from adds_trans [OF this x [of w1 "schema_path options source w"]] export_fail
    show ?thesis by (auto dest: adds_events_since)
  next
    case (panic w1 w2 w3)
    from d [of w] panic(1) have "adds ?P w w1" by simp
    from adds_trans [OF this x [of w1 "schema_path options source w"]] panic
      b [of "run_timestamp w" w2]
    show ?thesis by (auto dest: adds_events_since)
  next
    case (dry w1 w2 bf w3)
    from d [of w] dry(1) have "adds ?P w w1" by simp
    from adds_trans [OF this x [of w1 "schema_path options source w"]] dry
      b [of "run_timestamp w" w2]
    have "adds ?P w w3" by simp
    then have "adds ?P w (logger_Info ''DRY RUN MODE - showing what would be done:'' w3)"
      by (auto simp: adds_def prim_defs)
    with dry(5) show ?thesis
      by (auto simp: dryRunReport_def dest: adds_events_since)
  next
    case (migrate w1 w2 bf w3)
    from d [of w] migrate(1) have "adds ?P w w1" by simp
    from adds_trans [OF this x [of w1 "schema_path options source w"]] migrate
      b [of "run_timestamp w" w2]
    have "adds ?P w w3" by simp
    then have "adds ?P w (emit (Call ''dropDatabaseIfExists'') (emit (Call ''recreateDestinationDatabase'') w3))"
      by (auto simp: adds_def prim_defs)
    with migrate(5) show ?thesis
      by (auto simp: migrateSteps_def dest: adds_events_since)
  qed
qed

subsection \<open>The rollback script\<close>

lemma sublist_here: "sublist x (x @ b)"
  by (rule sublist_append_rightI)

lemma sublist_skip: "sublist x b \<Longrightarrow> sublist x (a @ b)"
  by (metis sublist_appendI sublist_order.order_trans append_Nil2 sublist_append_leftI)

lemma rollbackScriptText_embeds:
  "sublist created (rollbackScriptText created config backupFile)"
  "sublist (Host config) (rollbackScriptText created config backupFile)"
  "sublist (Port config) (rollbackScriptText created config backupFile)"
  "sublist (Username config) (rollbackScriptText created config backupFile)"
  "sublist (Database config) (rollbackScriptText created config backupFile)"
  "sublist (SSLMode config) (rollbackScriptText created config backupFile)"
  "sublist backupFile (rollbackScriptText created config backupFile)"
  unfolding rollbackScriptText_def
  by (rule sublist_here | rule sublist_skip)+

lemma rollbackScriptText_password:
  "rollbackScriptText created (config\<lparr>Password := p\<rparr>) backupFile
     = rollbackScriptText created config backupFile"
  by (simp add: rollbackScriptText_def)

lemma generateRollbackScript_password:
  "generateRollbackScript (config\<lparr>Password := p\<rparr>) backupFile options w
     = generateRollbackScript config backupFile options w"
  by (cases "\<not> CreateBackup options \<or> backupFile = []")
     (simp_all add: generateRollbackScript_def rollbackScriptText_password Let_def)

lemma generateRollbackScript_noop:
  assumes "\<not> CreateBackup options \<or> backupFile = []"
  shows "generateRollbackScript config backupFile options w =
           (None, emit (Return ''generateRollbackScript'' None) (emit (Call ''generateRollbackScript'') w))"
  using assms by (auto simp: generateRollbackScript_def called_def)

lemma generateRollbackScript_writes:
  assumes "CreateBackup options" and "backupFile \<noteq> []"
  shows "\<exists>r. fst (generateRollbackScript config backupFile options w) = r \<and>
           written (events_since w (snd (generateRollbackScript config backupFile options w))) =
             [(filepath_Join [OutputDir options, ''rollback.sh''],
               rollbackScriptText (Format_2006_01_02_15_04_05 (clock w (length (trace w) + 2)))
                  config backupFile, 493)] \<and>
           (r = None \<longrightarrow> filepath_Join [OutputDir options, ''rollback.sh'']
                             \<in> files (snd (generateRollbackScript config backupFile options w)))"
  using assms
  by (simp add: generateRollbackScript_def called_def events_since_def time_Now_def lib_defs
      split: option.split)

subsection \<open>Files written in an obliging world\<close>

lemma createDirectories_loop_files:
  "files (snd (createDirectories_loop ds w)) = files w"
proof (induction ds arbitrary: w)
  case Nil
  show ?case by simp
next
  case (Cons d ds)
  have f: "files (snd (os_MkdirAll d 493 w)) = files w"
    by (simp add: lib_defs split: option.split)
  with Cons [of "snd (os_MkdirAll d 493 w)"] show ?case
    by (cases "os_MkdirAll d 493 w"; cases "fst (os_MkdirAll d 493 w)") simp_all
qed

lemma createDirectories_files: "files (snd (createDirectories options w)) = files w"
  by (simp add: createDirectories_def Let_def createDirectories_loop_files)

lemma exportSchema_obliging_files:
  "obliging w \<Longrightarrow> files (snd (exportSchema config f options w)) = insert f (files w)"
  by (cases "IncludeRoles options") (simp_all add: exportSchema_def called_def obliging_def lib_defs)

lemma createDestinationBackup_absent:
  assumes "obliging w" and "(maintenance_conn config, Database config) \<notin> catalog w"
  shows "files (snd (createDestinationBackup config f options w)) = files w \<and>
         catalog (snd (createDestinationBackup config f options w)) = catalog w \<and>
         command_lines (events_since w (snd (createDestinationBackup config f options w))) = []"
  using assms
  by (simp add: createDestinationBackup_def databaseExists_def called_def obliging_def
      maintenance_conn_def events_since_def lib_defs)

lemma applySchema_obliging_files:
  "obliging w \<Longrightarrow> files (snd (applySchema config f w)) = files w"
  by (simp add: applySchema_def called_def obliging_def lib_defs)

lemma generateRollbackScript_obliging_files:
  "obliging w \<Longrightarrow> CreateBackup options \<Longrightarrow> f \<noteq> [] \<Longrightarrow>
   files (snd (generateRollbackScript config f options w))
     = insert (filepath_Join [OutputDir options, ''rollback.sh'']) (files w)"
  by (simp add: generateRollbackScript_def called_def obliging_def lib_defs)

lemma databaseExists_files: "files (snd (databaseExists config w)) = files w"
  by (simp add: databaseExists_def lib_defs split: option.split)

lemma called_files:
  assumes "\<And>w0. files (snd (body w0)) = files w0"
  shows "files (snd (called n body w)) = files w"
  using assms [of "emit (Call n) w"]
  by (cases "body (emit (Call n) w)") (simp add: called_def emit_def)

lemma dropDatabaseIfExists_files: "files (snd (dropDatabaseIfExists config w)) = files w"
  unfolding dropDatabaseIfExists_def
proof (rule called_files, goal_cases)
  case (1 w0)
  obtain ex err w1 where d: "databaseExists config w0 = ((ex, err), w1)"
    by (metis prod.exhaust)
  with databaseExists_files [of config w0] have q: "files w1 = files w0" by simp
  show ?case
    by (cases err; cases ex) (simp_all add: d q lib_defs split: option.split)
qed

lemma createDatabase_files: "files (snd (createDatabase config w)) = files w"
  unfolding createDatabase_def
  by (rule called_files) (simp add: lib_defs split: option.split)

lemma recreateDestinationDatabase_files:
  "files (snd (recreateDestinationDatabase config w)) = files w"
  unfolding recreateDestinationDatabase_def
proof (rule called_files, goal_cases)
  case (1 w0)
  obtain r1 w1 where d: "dropDatabaseIfExists config w0 = (r1, w1)"
    by (cases "dropDatabaseIfExists config w0")
  obtain r2 w2 where c: "createDatabase config w1 = (r2, w2)"
    by (cases "createDatabase config w1")
  from dropDatabaseIfExists_files [of config w0] d createDatabase_files [of config w1] c
  show ?case
    by (cases r1; cases r2) (simp_all add: d c)
qed

lemma paths:
  "schema_path direct_options source_config calm_world = ''out/schema_shop_prod_20240806_143022.sql''"
  "backup_path direct_options dest_config calm_world = ''out/backup/backup_shop_staging_20240806_143022.sql''"
  "filepath_Join [OutputDir direct_options, ''rollback.sh''] = ''out/rollback.sh''"
  by (simp_all add: schema_path_def backup_path_def run_timestamp_def time_Now_def
       Format_20060102_150405_def digits2_def digits4_def digit_def calm_world_def example_time_def
       direct_options_def source_config_def dest_config_def filepath_Join.simps filepath_Clean_def)

lemma migrateSteps_obliging_files:
  assumes "obliging w" and "CreateBackup options" and "bf \<noteq> []"
  shows "files (snd (migrateSteps (Some d) sf bf options w))
           = insert (filepath_Join [OutputDir options, ''rollback.sh'']) (files w)"
proof -
  obtain r1 w1 where r: "recreateDestinationDatabase d w = (r1, w1)"
    by (cases "recreateDestinationDatabase d w")
  with recreateDestinationDatabase_obliging [OF assms(1), of d] recreateDestinationDatabase_files [of d w]
  have r1: "r1 = None" and o1: "obliging w1" and f1: "files w1 = files w"
    by simp_all
  obtain r2 w2 where a: "applySchema d sf w1 = (r2, w2)"
    by (cases "applySchema d sf w1")
  with applySchema_obliging [OF o1, of d sf] applySchema_obliging_files [OF o1, of d sf]
  have r2: "r2 = None" and o2: "obliging w2" and f2: "files w2 = files w1"
    by simp_all
  obtain r3 w3 where g: "generateRollbackScript d bf options w2 = (r3, w3)"
    by (cases "generateRollbackScript d bf options w2")
  with generateRollbackScript_obliging [OF o2, of d bf options]
    generateRollbackScript_obliging_files [OF o2 assms(2,3), of d]
  have r3: "r3 = None"
    and f3: "files w3 = insert (filepath_Join [OutputDir options, ''rollback.sh'']) (files w2)"
    by simp_all
  show ?thesis
    by (simp add: migrateSteps_def r a g r1 r2 r3 f1 f2 f3)
qed

lemma run_without_backup:
  assumes o: "obliging w"
    and absent: "(maintenance_conn d, Database d) \<notin> catalog w"
    and enabled: "CreateBackup options" and wet: "\<not> DryRun options"
    and path: "backup_path options d w \<noteq> []"
  shows "files (snd (performSchemaMigration source (Some d) options w))
           = insert (filepath_Join [OutputDir options, ''rollback.sh''])
               (insert (schema_path options source w) (files w))"
proof (cases rule: performSchemaMigration_cases [of options w source "Some d"])
  case (dirs_fail err w1)
  with createDirectories_obliging [OF o, of options] show ?thesis by simp
next
  case (export_fail w1 err w2)
  with createDirectories_obliging [OF o, of options] have "obliging w1" by simp
  from exportSchema_obliging [OF this, of source "schema_path options source w" options] export_fail(2)
  show ?thesis by simp
next
  case (panic w1 w2 w3)
  then show ?thesis
    by (cases rule: backupStep_cases [of options "Some d" "run_timestamp w" w2]) simp_all
next
  case (dry w1 w2 bf w3)
  with wet show ?thesis by simp
next
  case (migrate w1 w2 bf w3)
  from createDirectories_obliging [OF o, of options] createDirectories_files [of options w]
    createDirectories_plain [of w options] migrate(1)
  have o1: "obliging w1" and f1: "files w1 = files w" and c1: "catalog w1 = catalog w"
    by simp_all
  from exportSchema_obliging [OF o1, of source "schema_path options source w" options]
    exportSchema_obliging_files [OF o1, of source "schema_path options source w" options]
    exportSchema_catalog [of source "schema_path options source w" options w1] migrate(2)
  have o2: "obliging w2" and f2: "files w2 = insert (schema_path options source w) (files w1)"
    and c2: "catalog w2 = catalog w1"
    by simp_all
  from absent c1 c2 have a2: "(maintenance_conn d, Database d) \<notin> catalog w2" by simp
  have "bf = backup_path options d w \<and> obliging w3 \<and> files w3 = files w2"
    using migrate(3)
  proof (cases rule: backupStep_cases [of options "Some d" "run_timestamp w" w2])
    case no_dest
    then show ?thesis by simp
  next
    case disabled
    with enabled show ?thesis by simp
  next
    case (failed d' err w1')
    with createDestinationBackup_obliging [OF o2, of d' _ options] show ?thesis
      by (metis fst_conv option.distinct(1))
  next
    case (made d' w1')
    then have d': "d' = d" by simp
    from made(3) createDestinationBackup_obliging [OF o2, of d "backup_path options d w" options]
      createDestinationBackup_absent [OF o2 a2, of "backup_path options d w" options]
    have "obliging w1' \<and> files w1' = files w2"
      by (simp add: d' backup_path_def)
    with made(4) migrate(3) show ?thesis
      by (simp add: d' backup_path_def)
  qed
  with migrateSteps_obliging_files [OF _ enabled, of w3 bf d "schema_path options source w"] path
    migrate(5) f1 f2
  show ?thesis by simp
qed

subsection \<open>Runs without a destination configuration\<close>

lemma opened_append: "opened (xs @ ys) = opened xs @ opened ys"
  by (induction xs rule: opened.induct) simp_all

lemma events_since_trans:
  "adds P w w1 \<Longrightarrow> adds Q w1 w2 \<Longrightarrow> events_since w w2 = events_since w w1 @ events_since w1 w2"
  by (auto simp: adds_def events_since_def)

lemma opened_local: "list_all (\<lambda>e. \<not> is_connection e) evs \<Longrightarrow> opened evs = []"
  by (induction evs rule: opened.induct) simp_all

lemma createDirectories_loop_local:
  "adds (\<lambda>e. \<not> is_connection e) w (snd (createDirectories_loop ds w))"
proof (induction ds arbitrary: w)
  case Nil
  show ?case by (simp add: adds_refl)
next
  case (Cons d ds)
  have m: "adds (\<lambda>e. \<not> is_connection e) w (snd (os_MkdirAll d 493 w))"
    by (simp add: adds_def lib_defs split: option.split)
  show ?case
  proof (cases "os_MkdirAll d 493 w")
    case (Pair r w1)
    with m have q: "adds (\<lambda>e. \<not> is_connection e) w w1" by simp
    show ?thesis
    proof (cases r)
      case None
      from adds_trans [OF q Cons [of w1]] Pair None show ?thesis by simp
    next
      case (Some e)
      with Pair q show ?thesis by simp
    qed
  qed
qed

lemma createDirectories_local:
  "adds (\<lambda>e. \<not> is_connection e) w (snd (createDirectories options w))"
  by (simp add: createDirectories_def createDirectories_loop_local Let_def)

lemma exportSchema_local:
  "adds (\<lambda>e. \<not> is_connection e) w (snd (exportSchema config f options w))"
  by (cases "IncludeRoles options")
     (simp_all add: exportSchema_def called_def adds_def lib_defs emit_def split: option.split)

lemma no_dest_local:
  "adds (\<lambda>e. \<not> is_connection e) w (snd (performSchemaMigration source None options w))"
proof -
  let ?P = "\<lambda>e. \<not> is_connection e"
  note d = createDirectories_local [of w options]
  have b: "backupStep None options ts w0 = (r, w3) \<Longrightarrow> w3 = w0" for ts w0 r w3
    by (simp add: backupStep_def split: if_splits)
  show ?thesis
  proof (cases rule: performSchemaMigration_cases [of options w source None])
    case (dirs_fail err w1)
    with d show ?thesis by simp
  next
    case (export_fail w1 err w2)
    with d exportSchema_local [of w1 source "schema_path options source w" options]
    show ?thesis by (auto intro: adds_trans)
  next
    case (panic w1 w2 w3)
    with d exportSchema_local [of w1 source "schema_path options source w" options] b [OF panic(3)]
    show ?thesis by (auto intro: adds_trans)
  next
    case (dry w1 w2 bf w3)
    have "adds ?P w2 (snd (dryRunReport None (schema_path options source w) bf options w2))"
      by (simp add: dryRunReport_def Let_def logger_Info_def emit_def adds_def)
    with dry d exportSchema_local [of w1 source "schema_path options source w" options] b [OF dry(3)]
    show ?thesis by (auto intro: adds_trans)
  next
    case (migrate w1 w2 bf w3)
    have "adds ?P w2 (snd (migrateSteps None (schema_path options source w) bf options w2))"
      by (simp add: migrateSteps_def emit_def adds_def)
    with migrate d exportSchema_local [of w1 source "schema_path options source w" options]
      b [OF migrate(3)]
    show ?thesis by (auto intro: adds_trans)
  qed
qed

lemma no_dest_panics:
  assumes o: "obliging w"
  shows "fst (performSchemaMigration source None options w) = Panic \<and>
         files (snd (performSchemaMigration source None options w))
           = insert (schema_path options source w) (files w)"
proof (cases rule: performSchemaMigration_cases [of options w source None])
  case (dirs_fail err w1)
  with createDirectories_obliging [OF o, of options] show ?thesis by simp
next
  case (export_fail w1 err w2)
  with createDirectories_obliging [OF o, of options] have "obliging w1" by simp
  from exportSchema_obliging [OF this, of source "schema_path options source w" options] export_fail(2)
  show ?thesis by simp
next
  case (panic w1 w2 w3)
  from createDirectories_obliging [OF o, of options] createDirectories_files [of options w] panic(1)
  have o1: "obliging w1" and f1: "files w1 = files w"
    by simp_all
  from exportSchema_obliging_files [OF o1, of source "schema_path options source w" options] panic(2)
  have f2: "files w2 = insert (schema_path options source w) (files w1)"
    by simp
  from panic(3) have "w3 = w2"
    by (simp add: backupStep_def split: if_splits)
  with panic(4) f1 f2 show ?thesis by simp
next
  case (dry w1 w2 bf w3)
  from createDirectories_obliging [OF o, of options] createDirectories_files [of options w] dry(1)
  have o1: "obliging w1" and f1: "files w1 = files w"
    by simp_all
  from exportSchema_obliging_files [OF o1, of source "schema_path options source w" options] dry(2)
  have f2: "files w2 = insert (schema_path options source w) (files w1)"
    by simp
  from dry(3) have "w3 = w2"
    by (simp add: backupStep_def split: if_splits)
  with dry(5) f1 f2 show ?thesis
    by (simp add: dryRunReport_def Let_def logger_Info_def emit_def)
next
  case (migrate w1 w2 bf w3)
  from createDirectories_obliging [OF o, of options] createDirectories_files [of options w] migrate(1)
  have o1: "obliging w1" and f1: "files w1 = files w"
    by simp_all
  from exportSchema_obliging_files [OF o1, of source "schema_path options source w" options] migrate(2)
  have f2: "files w2 = insert (schema_path options source w) (files w1)"
    by simp
  from migrate(3) have "w3 = w2"
    by (simp add: backupStep_def split: if_splits)
  with migrate(5) f1 f2 show ?thesis
    by (simp add: migrateSteps_def emit_def)
qed

lemma export_run_start:
  "parseMigrationOptions export_flags =
     Inr (direct_options\<lparr>Mode := ''export''\<rparr>)"
  "getSourceConfig export_flags (logger_Info ''Starting PostgreSQL schema migration...'' calm_world)
     = (Inr reports_config,
        calm_world\<lparr>tty := [Inr ''dest-s3cret''],
          trace := [(Log INFO ''Starting PostgreSQL schema migration...'', None),
                    (Stdout ''Enter password for source database (app@prod.example.com): '', None),
                    (Stdout ''\<newline>'', None)]\<rparr>)"
  by (simp_all add: parseMigrationOptions_def export_flags_def direct_options_def Let_def
      filepath_Join.simps filepath_Clean_def getSourceConfig_def validateSSLMode_def validModes_def
      readPassword_def read_tty_def calm_world_def prim_defs emit_def reports_config_def)

lemma export_run_validated:
  "validateSourceConnection reports_config
     (calm_world\<lparr>tty := [Inr ''dest-s3cret''],
        trace := [(Log INFO ''Starting PostgreSQL schema migration...'', None),
                  (Stdout ''Enter password for source database (app@prod.example.com): '', None),
                  (Stdout ''\<newline>'', None)]\<rparr>)
     = (None,
        calm_world\<lparr>tty := [Inr ''dest-s3cret''],
          trace := [(Log INFO ''Starting PostgreSQL schema migration...'', None),
                    (Stdout ''Enter password for source database (app@prod.example.com): '', None),
                    (Stdout ''\<newline>'', None),
                    (Log INFO ''Validating source database connection...'', None),
                    (SqlOpen (database_conn reports_config), None),
                    (Ping (database_conn reports_config), None),
                    (Log INFO ''Source database connection successful'', None),
                    (Close (database_conn reports_config), None)]\<rparr>)"
  by (simp add: validateSourceConnection_def database_conn_def calm_world_def lib_defs attempt_def
      emit_def reports_config_def)

subsection \<open>Failures of recreateDestinationDatabase\<close>

lemma recreateDestinationDatabase_eq:
  assumes "dropDatabaseIfExists config (emit (Call ''recreateDestinationDatabase'') w) = (r1, w1)"
    and "createDatabase config w1 = (r2, w2)"
  shows "recreateDestinationDatabase config w =
           (case r1 of Some err \<Rightarrow> (r1, emit (Return ''recreateDestinationDatabase'' r1) w1)
            | None \<Rightarrow> (r2, emit (Return ''recreateDestinationDatabase'' r2) w2))"
  unfolding recreateDestinationDatabase_def
  by (cases r1; cases r2) (simp_all add: called_eq assms)

lemma dropDatabaseIfExists_absent:
  assumes "fst (dropDatabaseIfExists config w) = None"
  shows "(maintenance_conn config, Database config) \<notin> catalog (snd (dropDatabaseIfExists config w))"
proof -
  define w0 where "w0 = emit (Call ''dropDatabaseIfExists'') w"
  obtain ex err w1 where d: "databaseExists config w0 = ((ex, err), w1)"
    by (metis prod.exhaust)
  have x: "err = None \<Longrightarrow> ex = ((maintenance_conn config, Database config) \<in> catalog w1)"
    using d
    by (auto simp: databaseExists_def maintenance_conn_def lib_defs split: option.splits)
  have c1: "catalog w1 = catalog w0"
    using databaseExists_plain [of w0 config] d by simp
  show ?thesis
    using assms x c1
    unfolding dropDatabaseIfExists_def called_def w0_def [symmetric]
    by (cases err; cases ex)
       (auto simp: d maintenance_conn_def logger_Info_def logger_Warning_def sql_Open_def
          db_Exec_def db_Close_def attempt_def Let_def catalog_emit emit_def
          split: option.splits prod.splits)
qed

lemma createDatabase_failed:
  "fst (createDatabase config w) = Some err \<Longrightarrow>
   catalog (snd (createDatabase config w)) = catalog w"
  unfolding createDatabase_def
  by (auto simp: called_def lib_defs split: option.splits)


lemma recreate_without_create:
  assumes "dropDatabaseIfExists config (emit (Call ''recreateDestinationDatabase'') w) = (Some e, w1)"
  shows "(Call ''createDatabase'', None)
           \<notin> set (events_since w (snd (recreateDestinationDatabase config w)))"
proof -
  obtain r2 w2 where c: "createDatabase config w1 = (r2, w2)"
    by (cases "createDatabase config w1")
  have "framed (\<lambda>e. \<not> is_mark e) ''dropDatabaseIfExists''
          (emit (Call ''recreateDestinationDatabase'') w) (Some e, w1)"
    unfolding assms [symmetric] by (rule dropDatabaseIfExists_framed)
  then obtain inner where
    t: "trace w1 = trace w @ (Call ''recreateDestinationDatabase'', None)
                     # (Call ''dropDatabaseIfExists'', None) # inner
                     @ [(Return ''dropDatabaseIfExists'' (Some e), None)]"
    and l: "list_all (\<lambda>e. \<not> is_mark e) inner"
    by (auto simp: framed_def emit_def)
  from l have "(Call ''createDatabase'', None) \<notin> set inner"
    by (auto simp: list_all_iff)
  then show ?thesis
    by (simp add: recreateDestinationDatabase_eq [OF assms c] events_since_def emit_def t)
qed

lemma failing_worlds:
  "fst (dropDatabaseIfExists dest_config (emit (Call ''recreateDestinationDatabase'') drop_fails_world))
     = Some ''boom''"
  "fst (dropDatabaseIfExists dest_config (emit (Call ''recreateDestinationDatabase'') create_fails_world))
     = None"
  "fst (createDatabase dest_config
          (snd (dropDatabaseIfExists dest_config
                  (emit (Call ''recreateDestinationDatabase'') create_fails_world))))
     = Some ''boom''"
  "(maintenance_conn dest_config, Database dest_config)
     \<in> catalog (snd (dropDatabaseIfExists dest_config
                        (emit (Call ''recreateDestinationDatabase'') drop_fails_world)))"
  by (simp_all add: dropDatabaseIfExists_def createDatabase_def databaseExists_def called_def
      drop_fails_world_def create_fails_world_def staged_world_def calm_world_def dest_config_def
      maintenance_conn_def terminateQuery_def sq_def dq_def lib_defs)

lemma recreate_parts:
  "fst (recreateDestinationDatabase config w) =
     (case fst (dropDatabaseIfExists config (emit (Call ''recreateDestinationDatabase'') w)) of
        Some err \<Rightarrow> Some err
      | None \<Rightarrow>
          fst (createDatabase config
                 (snd (dropDatabaseIfExists config (emit (Call ''recreateDestinationDatabase'') w)))))"
  "fst (dropDatabaseIfExists config (emit (Call ''recreateDestinationDatabase'') w)) = Some err \<Longrightarrow>
     (Call ''createDatabase'', None)
       \<notin> set (events_since w (snd (recreateDestinationDatabase config w)))"
  "fst (dropDatabaseIfExists config (emit (Call ''recreateDestinationDatabase'') w)) = None \<Longrightarrow>
   fst (createDatabase config
          (snd (dropDatabaseIfExists config (emit (Call ''recreateDestinationDatabase'') w))))
     = Some err \<Longrightarrow>
     fst (recreateDestinationDatabase config w) = Some err \<and>
     (maintenance_conn config, Database config)
       \<notin> catalog (snd (recreateDestinationDatabase config w))"
  "fst (recreateDestinationDatabase config w) = Some err \<Longrightarrow>
     migrateSteps (Some config) schemaFile backupFile options w =
       (Return_value (Some (''failed to recreate destination database: '' @ err)),
        snd (recreateDestinationDatabase config w))"
proof -
  define w0 where "w0 = emit (Call ''recreateDestinationDatabase'') w"
  obtain r1 w1 where d: "dropDatabaseIfExists config w0 = (r1, w1)"
    by (cases "dropDatabaseIfExists config w0")
  obtain r2 w2 where c: "createDatabase config w1 = (r2, w2)"
    by (cases "createDatabase config w1")
  note e = recreateDestinationDatabase_eq [OF d [unfolded w0_def] c]
  show "fst (recreateDestinationDatabase config w) =
     (case fst (dropDatabaseIfExists config (emit (Call ''recreateDestinationDatabase'') w)) of
        Some err \<Rightarrow> Some err
      | None \<Rightarrow>
          fst (createDatabase config
                 (snd (dropDatabaseIfExists config (emit (Call ''recreateDestinationDatabase'') w)))))"
    by (cases r1) (simp_all add: e w0_def [symmetric] d c)
  show "(Call ''createDatabase'', None)
       \<notin> set (events_since w (snd (recreateDestinationDatabase config w)))"
    if "fst (dropDatabaseIfExists config (emit (Call ''recreateDestinationDatabase'') w)) = Some err"
    using that recreate_without_create [of config w err w1] d
    by (simp add: w0_def)
  show "fst (recreateDestinationDatabase config w) = Some err \<and>
     (maintenance_conn config, Database config)
       \<notin> catalog (snd (recreateDestinationDatabase config w))"
    if "fst (dropDatabaseIfExists config (emit (Call ''recreateDestinationDatabase'') w)) = None"
      and "fst (createDatabase config
          (snd (dropDatabaseIfExists config (emit (Call ''recreateDestinationDatabase'') w))))
           = Some err"
  proof -
    from that d c have r: "r1 = None" "r2 = Some err"
      by (simp_all add: w0_def [symmetric])
    from dropDatabaseIfExists_absent [of config w0] d r
    have "(maintenance_conn config, Database config) \<notin> catalog w1"
      by simp
    moreover from createDatabase_failed [of config w1 err] c r
    have "catalog w2 = catalog w1"
      by simp
    ultimately show ?thesis
      by (simp add: e r catalog_emit)
  qed
  show "migrateSteps (Some config) schemaFile backupFile options w =
       (Return_value (Some (''failed to recreate destination database: '' @ err)),
        snd (recreateDestinationDatabase config w))"
    if "fst (recreateDestinationDatabase config w) = Some err"
    using that
    by (cases "recreateDestinationDatabase config w") (simp add: migrateSteps_def)
qed

subsection \<open>A failing backup\<close>

lemma migrateSteps_starts:
  "\<exists>rest. trace (snd (migrateSteps (Some d) sf bf options w))
            = trace w @ (Call ''recreateDestinationDatabase'', None) # rest"
proof -
  obtain r1 w1 where r: "recreateDestinationDatabase d w = (r1, w1)"
    by (cases "recreateDestinationDatabase d w")
  obtain r2 w2 where a: "applySchema d sf w1 = (r2, w2)"
    by (cases "applySchema d sf w1")
  obtain r3 w3 where g: "generateRollbackScript d bf options w2 = (r3, w3)"
    by (cases "generateRollbackScript d bf options w2")
  from recreateDestinationDatabase_framed [of w d] r obtain e1 where
    t1: "trace w1 = trace w @ (Call ''recreateDestinationDatabase'', None) # e1"
    by (auto simp: framed_def)
  from applySchema_framed [of w1 d sf] a obtain e2 where
    t2: "trace w2 = trace w1 @ e2" by (auto simp: framed_def)
  from generateRollbackScript_quiet [of w2 d bf options] g obtain e3 where
    t3: "trace w3 = trace w2 @ e3" by (auto simp: quiet_def adds_def)
  show ?thesis
    using r a g t1 t2 t3
    by (cases r1; cases r2; cases r3)
       (simp_all add: migrateSteps_def logger_Warning_def emit_def)
qed

lemma migrateSteps_applies:
  assumes "fst (recreateDestinationDatabase d w) = None"
  shows "(Call ''applySchema'', None)
           \<in> set (events_since w (snd (migrateSteps (Some d) sf bf options w)))"
proof -
  obtain w1 where r: "recreateDestinationDatabase d w = (None, w1)"
    using assms by (cases "recreateDestinationDatabase d w") simp
  obtain r2 w2 where a: "applySchema d sf w1 = (r2, w2)"
    by (cases "applySchema d sf w1")
  obtain r3 w3 where g: "generateRollbackScript d bf options w2 = (r3, w3)"
    by (cases "generateRollbackScript d bf options w2")
  from recreateDestinationDatabase_framed [of w d] r obtain e1 where
    t1: "trace w1 = trace w @ e1" by (auto simp: framed_def)
  from applySchema_framed [of w1 d sf] a obtain e2 where
    t2: "trace w2 = trace w1 @ (Call ''applySchema'', None) # e2" by (auto simp: framed_def)
  from generateRollbackScript_quiet [of w2 d bf options] g obtain e3 where
    t3: "trace w3 = trace w2 @ e3" by (auto simp: quiet_def adds_def)
  show ?thesis
    using r a g t1 t2 t3
    by (cases r2; cases r3)
       (simp_all add: migrateSteps_def events_since_def logger_Warning_def emit_def)
qed

lemma migrateSteps_returns:
  assumes "fst (recreateDestinationDatabase d w) = None"
    and "fst (applySchema d sf (snd (recreateDestinationDatabase d w))) = None"
  shows "fst (migrateSteps (Some d) sf bf options w) = Return_value None"
  using assms
  by (cases "recreateDestinationDatabase d w";
      cases "applySchema d sf (snd (recreateDestinationDatabase d w))";
      cases "generateRollbackScript d bf options
               (snd (applySchema d sf (snd (recreateDestinationDatabase d w))))")
     (auto simp: migrateSteps_def split: option.split)

lemma backup_failure_continues:
  assumes "\<not> DryRun options" and "CreateBackup options"
    and c: "createDirectories options w = (None, w1)"
    and e: "exportSchema source (schema_path options source w) options w1 = (None, w2)"
    and b: "createDestinationBackup d (backup_path options d w) options w2 = (Some err, w3)"
  shows "performSchemaMigration source (Some d) options w =
           migrateSteps (Some d) (schema_path options source w) (backup_path options d w) options
             (logger_Warning (''Backup creation failed (continuing): '' @ err) w3)"
proof -
  have s: "backupStep (Some d) options (run_timestamp w) w2 =
           (Some (backup_path options d w),
            logger_Warning (''Backup creation failed (continuing): '' @ err) w3)"
    using assms(2) b by (simp add: backupStep_def backup_path_def Let_def)
  show ?thesis
  proof (cases rule: performSchemaMigration_cases [of options w source "Some d"])
    case (dirs_fail err w1)
    with c show ?thesis by simp
  next
    case (export_fail w1 err w2)
    with c e show ?thesis by simp
  next
    case (panic w1 w2 w3)
    with c e s show ?thesis by simp
  next
    case (dry w1 w2 bf w3)
    with assms(1) show ?thesis by simp
  next
    case (migrate w1' w2' bf w3')
    with c e s show ?thesis by simp
  qed
qed

lemma backup_failure_events:
  assumes c: "createDirectories options w = (None, w1)"
    and e: "exportSchema source sf options w1 = (None, w2)"
    and b: "createDestinationBackup d bp options w2 = (Some err, w3)"
  shows "\<exists>before rest.
           events_since w (snd (migrateSteps (Some d) sf bf options
                                  (logger_Warning (''Backup creation failed (continuing): '' @ err) w3)))
           = before @ [(Return ''createDestinationBackup'' (Some err), None),
                       (Log WARNING (''Backup creation failed (continuing): '' @ err), None),
                       (Call ''recreateDestinationDatabase'', None)] @ rest"
proof -
  from createDirectories_plain [of w options] c obtain e1 where
    t1: "trace w1 = trace w @ e1" by (auto simp: adds_def)
  have "framed plain ''exportSchema'' w1 (None, w2)"
    unfolding e [symmetric] by (rule exportSchema_framed)
  then obtain e2 where t2: "trace w2 = trace w1 @ e2" by (auto simp: framed_def)
  have "framed plain ''createDestinationBackup'' w2 (Some err, w3)"
    unfolding b [symmetric] by (rule createDestinationBackup_framed)
  then obtain e3 where
    t3: "trace w3 = trace w2 @ e3 @ [(Return ''createDestinationBackup'' (Some err), None)]"
    by (auto simp: framed_def)
  from migrateSteps_starts
         [of d sf bf options "logger_Warning (''Backup creation failed (continuing): '' @ err) w3"]
  obtain rest where
    t4: "trace (snd (migrateSteps (Some d) sf bf options
                       (logger_Warning (''Backup creation failed (continuing): '' @ err) w3)))
         = trace w3 @ (Log WARNING (''Backup creation failed (continuing): '' @ err), None)
             # (Call ''recreateDestinationDatabase'', None) # rest"
    by (auto simp: logger_Warning_def emit_def)
  have "events_since w (snd (migrateSteps (Some d) sf bf options
                                  (logger_Warning (''Backup creation failed (continuing): '' @ err) w3)))
        = (e1 @ e2 @ e3) @ [(Return ''createDestinationBackup'' (Some err), None),
                       (Log WARNING (''Backup creation failed (continuing): '' @ err), None),
                       (Call ''recreateDestinationDatabase'', None)] @ rest"
    unfolding events_since_def t4 t3 t2 t1 by simp
  then show ?thesis by blast
qed

lemma events_since_later:
  assumes "trace w1 = trace w @ pre" and "trace w2 = trace w1 @ evs"
  shows "set (events_since w1 w2) \<subseteq> set (events_since w w2)"
  using assms by (simp add: events_since_def)


lemma backup_failure_applies:
  assumes c: "createDirectories options w = (None, w1)"
    and e: "exportSchema source sf options w1 = (None, w2)"
    and b: "createDestinationBackup d bp options w2 = (Some err, w3)"
    and r: "fst (recreateDestinationDatabase d
                   (logger_Warning (''Backup creation failed (continuing): '' @ err) w3)) = None"
  shows "(Call ''applySchema'', None)
           \<in> set (events_since w (snd (migrateSteps (Some d) sf bf options
                  (logger_Warning (''Backup creation failed (continuing): '' @ err) w3))))"
proof -
  define w4 where "w4 = logger_Warning (''Backup creation failed (continuing): '' @ err) w3"
  from createDirectories_plain [of w options] c obtain e1 where
    t1: "trace w1 = trace w @ e1" by (auto simp: adds_def)
  have "framed plain ''exportSchema'' w1 (None, w2)"
    unfolding e [symmetric] by (rule exportSchema_framed)
  then obtain e2 where t2: "trace w2 = trace w1 @ e2" by (auto simp: framed_def)
  have "framed plain ''createDestinationBackup'' w2 (Some err, w3)"
    unfolding b [symmetric] by (rule createDestinationBackup_framed)
  then obtain e3 where t3: "trace w3 = trace w2 @ e3"
    by (auto simp: framed_def)
  have t4: "trace w4 = trace w @ (e1 @ e2 @ e3 @ [(Log WARNING (''Backup creation failed (continuing): '' @ err), None)])"
    by (simp add: w4_def logger_Warning_def emit_def t1 t2 t3)
  from migrateSteps_starts [of d sf bf options w4] obtain rest where
    t5: "trace (snd (migrateSteps (Some d) sf bf options w4))
           = trace w4 @ (Call ''recreateDestinationDatabase'', None) # rest"
    by blast
  from migrateSteps_applies [of d w4 sf bf options] r
  have "(Call ''applySchema'', None) \<in> set (events_since w4 (snd (migrateSteps (Some d) sf bf options w4)))"
    by (simp add: w4_def)
  with events_since_later [OF t4 t5] show ?thesis
    unfolding w4_def by blast
qed

subsection \<open>Worlds in which the dump with data fails\<close>

lemma dump_fails_simps:
  "dump_fails tr (Run name args env) =
     (if name = ''pg_dump'' \<and> ''--schema-only'' \<notin> set args then Some ''exit status 1'' else None)"
  "dump_fails tr (MkdirAll dir perm) = None"
  "dump_fails tr (WriteFile path content perm) = None"
  "dump_fails tr (SqlOpen c) = None"
  "dump_fails tr (Ping c) = None"
  "dump_fails tr (QueryRow c q args) = None"
  "dump_fails tr (Exec c q args) = None"
  by (simp_all add: dump_fails_def)

lemma createDirectories_loop_dump_fails:
  "respond w = dump_fails \<Longrightarrow>
   fst (createDirectories_loop ds w) = None \<and> respond (snd (createDirectories_loop ds w)) = dump_fails \<and>
   catalog (snd (createDirectories_loop ds w)) = catalog w"
proof (induction ds arbitrary: w)
  case Nil
  then show ?case by simp
next
  case (Cons d ds)
  from Cons.prems have "fst (os_MkdirAll d 493 w) = None \<and> respond (snd (os_MkdirAll d 493 w)) = dump_fails
      \<and> catalog (snd (os_MkdirAll d 493 w)) = catalog w"
    by (simp add: dump_fails_simps lib_defs)
  with Cons.IH [of "snd (os_MkdirAll d 493 w)"] show ?case
    by (cases "os_MkdirAll d 493 w") simp
qed

lemma createDirectories_dump_fails:
  "respond w = dump_fails \<Longrightarrow>
   fst (createDirectories options w) = None \<and> respond (snd (createDirectories options w)) = dump_fails \<and>
   catalog (snd (createDirectories options w)) = catalog w"
  by (simp add: createDirectories_def Let_def createDirectories_loop_dump_fails)

lemma exportSchema_dump_fails:
  "respond w = dump_fails \<Longrightarrow>
   fst (exportSchema config f options w) = None \<and>
   respond (snd (exportSchema config f options w)) = dump_fails \<and>
   catalog (snd (exportSchema config f options w)) = catalog w"
  by (cases "IncludeRoles options")
     (simp_all add: exportSchema_def called_def dump_fails_simps removeFromSlice_def lib_defs)

lemma createDestinationBackup_dump_fails:
  assumes "respond w = dump_fails"
    and "(maintenance_conn dest_config, Database dest_config) \<in> catalog w"
  shows "fst (createDestinationBackup dest_config example_backup_file direct_options w)
           = Some ''backup pg_dump failed: exit status 1'' \<and>
         respond (snd (createDestinationBackup dest_config example_backup_file direct_options w))
           = dump_fails"
  using assms
  by (simp add: createDestinationBackup_def databaseExists_def called_def dump_fails_simps
      maintenance_conn_def dest_config_def direct_options_def example_backup_file_def lib_defs)

lemma recreateDestinationDatabase_dump_fails:
  assumes "respond w = dump_fails"
  shows "fst (recreateDestinationDatabase config w) = None \<and>
         respond (snd (recreateDestinationDatabase config w)) = dump_fails"
proof -
  define w0 where "w0 = emit (Call ''recreateDestinationDatabase'') w"
  have r0: "respond w0 = dump_fails"
    using assms by (simp add: w0_def emit_def)
  obtain r1 w1 where d: "dropDatabaseIfExists config w0 = (r1, w1)"
    by (cases "dropDatabaseIfExists config w0")
  have "fst (dropDatabaseIfExists config w0) = None \<and>
        respond (snd (dropDatabaseIfExists config w0)) = dump_fails"
    using r0
    by (cases "(maintenance_conn config, Database config) \<in> catalog w0")
       (simp_all add: dropDatabaseIfExists_def databaseExists_def called_def dump_fails_simps
          maintenance_conn_def lib_defs)
  with d have r1: "r1 = None" and d1: "respond w1 = dump_fails"
    by simp_all
  obtain r2 w2 where c: "createDatabase config w1 = (r2, w2)"
    by (cases "createDatabase config w1")
  have "fst (createDatabase config w1) = None \<and> respond (snd (createDatabase config w1)) = dump_fails"
    using d1 by (simp add: createDatabase_def called_def dump_fails_simps lib_defs)
  with c have r2: "r2 = None" and d2: "respond w2 = dump_fails"
    by simp_all
  show ?thesis
    using d2
    by (simp add: recreateDestinationDatabase_eq [OF d [unfolded w0_def] c] r1 r2 emit_def)
qed

lemma applySchema_dump_fails:
  "respond w = dump_fails \<Longrightarrow> fst (applySchema config f w) = None"
  by (simp add: applySchema_def called_def dump_fails_simps lib_defs)


lemma backup_fails_world_facts:
  "respond backup_fails_world = dump_fails"
  "(maintenance_conn dest_config, Database dest_config) \<in> catalog backup_fails_world"
  "backup_path direct_options dest_config backup_fails_world = example_backup_file"
  by (simp_all add: backup_fails_world_def staged_world_def calm_world_def backup_path_def
      run_timestamp_def time_Now_def Format_20060102_150405_def digits2_def digits4_def digit_def
      example_time_def direct_options_def dest_config_def filepath_Join.simps filepath_Clean_def
      example_backup_file_def)

subsection \<open>A backup that is skipped\<close>








section \<open>SSL mode validation (claim C5)\<close>

lemma dest_ssl_invalid:
  assumes d: "mode cmd = ''direct''" and v: "validateSSLMode (dest_ssl cmd) = Some e"
  shows "fst (exit_status cmd w) = 1 \<and>
         \<not> list_ex is_connection (events_since w (snd (exit_status cmd w)))"
proof -
  define w1 where "w1 = logger_Info ''Starting PostgreSQL schema migration...'' w"
  obtain r w2 where g: "getSourceConfig cmd w1 = (r, w2)"
    by (cases "getSourceConfig cmd w1")
  from getSourceConfig_adds [of w1 cmd] g obtain evs where
    t: "trace w2 = trace w1 @ evs" and n: "list_all (\<lambda>e. \<not> is_connection e) evs"
    by (auto simp: adds_def)
  have t1: "trace w1 = trace w @ [(Log INFO ''Starting PostgreSQL schema migration...'', None)]"
    by (simp add: w1_def prim_defs)
  have p: "\<exists>opts. parseMigrationOptions cmd = Inr opts \<and> Mode opts = ''direct''"
    using d by (simp add: parseMigrationOptions_def Let_def)
  then obtain opts where o: "parseMigrationOptions cmd = Inr opts" "Mode opts = ''direct''"
    by blast
  have gd: "\<And>n w'. getDestConfig cmd n w' = (Inl (''invalid destination SSL mode: '' @ e), w')"
    using v by (simp add: getDestConfig_def)
  show ?thesis
  proof (cases r)
    case (Inl err)
    then show ?thesis
      using g t n t1 o
      by (simp add: exit_status_def runSchemaMigration_def w1_def [symmetric] events_since_def
          logger_Error_def emit_def list_ex_iff list_all_iff)
  next
    case (Inr sc)
    then show ?thesis
      using g t n t1 o gd
      by (simp add: exit_status_def runSchemaMigration_def w1_def [symmetric] events_since_def
          logger_Error_def emit_def list_ex_iff list_all_iff)
  qed
qed

text \<open>
  Claim C5. \<open>validateSSLMode\<close> returns \<open>nil\<close> exactly for the four strings \<open>disable\<close>,
  \<open>require\<close>, \<open>verify-ca\<close> and \<open>verify-full\<close>; every other string gets the error that lists
  them. A run whose source SSL mode is refused, or whose mode is \<open>direct\<close> and whose
  destination SSL mode is refused, exits with status 1 without one event on a database
  connection.
\<close>

theorem ssl_mode_validation:
  "(validateSSLMode s = None \<longleftrightarrow> s \<in> {''disable'', ''require'', ''verify-ca'', ''verify-full''}) \<and>
   (validateSSLMode s \<noteq> None \<longrightarrow>
      validateSSLMode s = Some ''must be one of: disable, require, verify-ca, verify-full'') \<and>
   (validateSSLMode (source_ssl cmd) \<noteq> None \<longrightarrow>
      fst (exit_status cmd w) = 1 \<and>
      \<not> list_ex is_connection (events_since w (snd (exit_status cmd w)))) \<and>
   (mode cmd = ''direct'' \<and> validateSSLMode (dest_ssl cmd) \<noteq> None \<longrightarrow>
      fst (exit_status cmd w) = 1 \<and>
      \<not> list_ex is_connection (events_since w (snd (exit_status cmd w))))"
proof (intro conjI impI)
  show "validateSSLMode s = None \<longleftrightarrow> s \<in> {''disable'', ''require'', ''verify-ca'', ''verify-full''}"
    by (rule validateSSLMode_None_iff)
next
  assume "validateSSLMode s \<noteq> None"
  then have "s \<notin> {''disable'', ''require'', ''verify-ca'', ''verify-full''}"
    by (simp only: validateSSLMode_None_iff not_False_eq_True)
  then show "validateSSLMode s = Some ''must be one of: disable, require, verify-ca, verify-full''"
    by (rule validateSSLMode_Some)
next
  assume a: "validateSSLMode (source_ssl cmd) \<noteq> None"
  then obtain e where "validateSSLMode (source_ssl cmd) = Some e" by blast
  from source_ssl_invalid [OF this, of w]
  show "fst (exit_status cmd w) = 1" 
    and "\<not> list_ex is_connection (events_since w (snd (exit_status cmd w)))" by simp_all
next
  assume a: "mode cmd = ''direct'' \<and> validateSSLMode (dest_ssl cmd) \<noteq> None"
  then obtain e where "validateSSLMode (dest_ssl cmd) = Some e" by blast
  from dest_ssl_invalid [OF _ this, of w] a
  show "fst (exit_status cmd w) = 1" 
    and "\<not> list_ex is_connection (events_since w (snd (exit_status cmd w)))" by simp_all
qed

theorem ssl_mode_validation_witness:
  "validateSSLMode ''foo'' = Some ''must be one of: disable, require, verify-ca, verify-full'' \<and>
   validateSSLMode ''verify-ca'' = None \<and>
   fst (exit_status (direct_flags\<lparr>source_ssl := ''foo''\<rparr>) calm_world) = 1 \<and>
   \<not> list_ex is_connection
        (events_since calm_world (snd (exit_status (direct_flags\<lparr>source_ssl := ''foo''\<rparr>) calm_world))) \<and>
   fst (exit_status (direct_flags\<lparr>dest_ssl := ''prefer''\<rparr>) calm_world) = 1 \<and>
   \<not> list_ex is_connection
        (events_since calm_world (snd (exit_status (direct_flags\<lparr>dest_ssl := ''prefer''\<rparr>) calm_world)))"
  using ssl_mode_validation [of "''foo''" "direct_flags\<lparr>source_ssl := ''foo''\<rparr>" calm_world]
    ssl_mode_validation [of "''verify-ca''" "direct_flags\<lparr>dest_ssl := ''prefer''\<rparr>" calm_world]
  by (simp add: direct_flags_def validateSSLMode_def validModes_def)


section \<open>Apply only after recreate (claim C2)\<close>

text \<open>
  Claim C2. In the events of every run of \<open>performSchemaMigration\<close>, each call of
  \<open>applySchema\<close> comes when the latest call of \<open>recreateDestinationDatabase\<close> has returned
  \<open>nil\<close>, none having done so before the run. A run that is not a dry run and returns
  \<open>nil\<close> ends with the destination database in the catalog of its server; a dry run that
  returns \<open>nil\<close> ends with the catalog it started with.
\<close>

theorem apply_only_after_recreate:
  "apply_after_recreate False
     (events_since w (snd (performSchemaMigration source dest options w))) \<and>
   (fst (performSchemaMigration source dest options w) = Return_value None \<longrightarrow>
      (if DryRun options
       then catalog (snd (performSchemaMigration source dest options w)) = catalog w
       else \<forall>d. dest = Some d \<longrightarrow>
              (maintenance_conn d, Database d)
                \<in> catalog (snd (performSchemaMigration source dest options w))))"
proof (intro conjI impI)
  show "apply_after_recreate False
     (events_since w (snd (performSchemaMigration source dest options w)))"
    by (rule run_guard)
next
  assume s: "fst (performSchemaMigration source dest options w) = Return_value None"
  show "if DryRun options
       then catalog (snd (performSchemaMigration source dest options w)) = catalog w
       else \<forall>d. dest = Some d \<longrightarrow>
              (maintenance_conn d, Database d)
                \<in> catalog (snd (performSchemaMigration source dest options w))"
  proof (cases "DryRun options")
    case True
    with dry_run_quiet [of options w source dest] show ?thesis
      by (simp add: quiet_def)
  next
    case False
    with s run_success_exists [of source _ options w] show ?thesis
      by auto
  qed
qed

theorem apply_only_after_recreate_witness:
  "apply_after_recreate False
     (events_since calm_world
        (snd (performSchemaMigration source_config (Some dest_config) direct_options calm_world))) \<and>
   fst (performSchemaMigration source_config (Some dest_config) direct_options calm_world)
     = Return_value None \<and>
   (Call ''applySchema'', None)
     \<in> set (events_since calm_world
        (snd (performSchemaMigration source_config (Some dest_config) direct_options calm_world))) \<and>
   (maintenance_conn dest_config, Database dest_config)
     \<in> catalog (snd (performSchemaMigration source_config (Some dest_config) direct_options calm_world))"
proof -
  have o: "obliging calm_world"
    by (simp add: obliging_def calm_world_def)
  have d: "\<not> DryRun direct_options"
    by (simp add: direct_options_def)
  note s = performSchemaMigration_obliging [OF o d, of source_config dest_config]
  from apply_only_after_recreate [of calm_world source_config "Some dest_config" direct_options]
    s d run_success_applies [OF s d]
  show ?thesis by simp
qed

section \<open>Dry runs (claim C3)\<close>

text \<open>
  Claim C3, amended. A dry run, in either mode, adds no event of a destructive operation
  to the trace (no statement is sent to a server, \<open>psql\<close> is not run, none of recreate,
  drop, create and apply is called) and leaves the catalog as it was. Once the output
  directories are made it calls the schema export; with a destination configuration (the
  direct mode), backups enabled and the export returned \<open>nil\<close>, it calls the destination
  backup and the rollback-script generation.
\<close>

theorem dry_run_is_not_destructive:
  "DryRun options \<longrightarrow>
     list_all (\<lambda>e. \<not> destructive e)
       (events_since w (snd (performSchemaMigration source dest options w))) \<and>
     catalog (snd (performSchemaMigration source dest options w)) = catalog w \<and>
     (fst (createDirectories options w) = None \<longrightarrow>
        (Call ''exportSchema'', None)
          \<in> set (events_since w (snd (performSchemaMigration source dest options w)))) \<and>
     (\<forall>d. dest = Some d \<and> CreateBackup options \<and>
          (Return ''exportSchema'' None, None)
            \<in> set (events_since w (snd (performSchemaMigration source dest options w))) \<longrightarrow>
          (Call ''createDestinationBackup'', None)
            \<in> set (events_since w (snd (performSchemaMigration source dest options w))) \<and>
          (Call ''generateRollbackScript'', None)
            \<in> set (events_since w (snd (performSchemaMigration source dest options w))))"
proof (intro impI conjI allI)
  assume d: "DryRun options"
  from dry_run_quiet [OF d, of w source dest]
  show "list_all (\<lambda>e. \<not> destructive e)
          (events_since w (snd (performSchemaMigration source dest options w)))"
    and "catalog (snd (performSchemaMigration source dest options w)) = catalog w"
    by (auto simp: quiet_def dest: adds_events_since)
next
  assume "DryRun options" and "fst (createDirectories options w) = None"
  with dry_run_marks [of options w source dest]
  show "(Call ''exportSchema'', None)
          \<in> set (events_since w (snd (performSchemaMigration source dest options w)))"
    by blast
next
  fix d
  assume "DryRun options" and "dest = Some d \<and> CreateBackup options \<and>
          (Return ''exportSchema'' None, None)
            \<in> set (events_since w (snd (performSchemaMigration source dest options w)))"
  with dry_run_marks [of options w source dest]
  show "(Call ''createDestinationBackup'', None)
            \<in> set (events_since w (snd (performSchemaMigration source dest options w)))"
    and "(Call ''generateRollbackScript'', None)
            \<in> set (events_since w (snd (performSchemaMigration source dest options w)))"
    by blast+
qed

theorem dry_run_is_not_destructive_witness:
  "DryRun dry_options \<and> CreateBackup dry_options \<and>
   list_all (\<lambda>e. \<not> destructive e)
     (events_since calm_world
        (snd (performSchemaMigration source_config (Some dest_config) dry_options calm_world))) \<and>
   catalog (snd (performSchemaMigration source_config (Some dest_config) dry_options calm_world))
     = catalog calm_world \<and>
   (Call ''exportSchema'', None)
     \<in> set (events_since calm_world
          (snd (performSchemaMigration source_config (Some dest_config) dry_options calm_world))) \<and>
   (Call ''createDestinationBackup'', None)
     \<in> set (events_since calm_world
          (snd (performSchemaMigration source_config (Some dest_config) dry_options calm_world))) \<and>
   (Call ''generateRollbackScript'', None)
     \<in> set (events_since calm_world
          (snd (performSchemaMigration source_config (Some dest_config) dry_options calm_world)))"
proof -
  have o: "obliging calm_world"
    by (simp add: obliging_def calm_world_def)
  have d: "DryRun dry_options" "CreateBackup dry_options"
    by (simp_all add: dry_options_def direct_options_def)
  from dry_run_is_not_destructive
         [of dry_options calm_world source_config "Some dest_config"]
    d createDirectories_obliging [OF o, of dry_options]
    obliging_export_returns [OF o, of source_config "Some dest_config" dry_options]
  show ?thesis by simp
qed

text \<open>
  The claim as stated fails in export mode: there is no destination configuration, and a
  dry run with backups enabled ends (by a panic) after the export, with neither the
  backup nor the rollback-script generation called.
\<close>

theorem dry_run_export_mode_counterexample:
  "DryRun export_dry_options \<and> CreateBackup export_dry_options \<and>
   (Return ''exportSchema'' None, None)
     \<in> set (events_since calm_world
          (snd (performSchemaMigration source_config None export_dry_options calm_world))) \<and>
   (Call ''createDestinationBackup'', None)
     \<notin> set (events_since calm_world
          (snd (performSchemaMigration source_config None export_dry_options calm_world))) \<and>
   (Call ''generateRollbackScript'', None)
     \<notin> set (events_since calm_world
          (snd (performSchemaMigration source_config None export_dry_options calm_world)))"
proof -
  have o: "obliging calm_world"
    by (simp add: obliging_def calm_world_def)
  have d: "DryRun export_dry_options" "CreateBackup export_dry_options"
    by (simp_all add: export_dry_options_def direct_options_def)
  from no_dest_marks [of calm_world source_config export_dry_options]
    d obliging_export_returns [OF o, of source_config None export_dry_options]
  show ?thesis by (auto simp: list_all_iff)
qed


section \<open>The rollback script (claim C6)\<close>

text \<open>
  What \<open>generateRollbackScript\<close> does. With backups disabled or an empty backup path it
  returns \<open>nil\<close>, adds nothing but its two marks to the trace and writes no file. Otherwise
  its events are the log line, then one write of \<open>rollback.sh\<close> in the output directory
  with permission 0755 (493), then the success line if the write succeeded; it returns
  what the write returned, and the file exists after a successful write and only then.
  The content contains the time of generation, the host, port, user, database and SSL
  mode of the configuration and the backup path. The password has no influence.
\<close>

lemma generateRollbackScript_does:
  "(\<not> CreateBackup options \<or> backupFile = [] \<longrightarrow>
      fst (generateRollbackScript config backupFile options w) = None \<and>
      events_since w (snd (generateRollbackScript config backupFile options w)) =
        [(Call ''generateRollbackScript'', None), (Return ''generateRollbackScript'' None, None)] \<and>
      files (snd (generateRollbackScript config backupFile options w)) = files w) \<and>
   (CreateBackup options \<and> backupFile \<noteq> [] \<longrightarrow>
      (\<exists>script r.
         fst (generateRollbackScript config backupFile options w) = r \<and>
         r = respond w
               (trace w @ [(Call ''generateRollbackScript'', None),
                           (Log INFO (''Generating rollback script: ''
                              @ filepath_Join [OutputDir options, ''rollback.sh'']), None)])
               (WriteFile (filepath_Join [OutputDir options, ''rollback.sh'']) script 493) \<and>
         events_since w (snd (generateRollbackScript config backupFile options w)) =
           [(Call ''generateRollbackScript'', None),
            (Log INFO (''Generating rollback script: ''
               @ filepath_Join [OutputDir options, ''rollback.sh'']), None),
            (WriteFile (filepath_Join [OutputDir options, ''rollback.sh'']) script 493, r)]
           @ (if r = None
              then [(Log SUCCESS (''Rollback script created: ''
                       @ filepath_Join [OutputDir options, ''rollback.sh'']), None)]
              else [])
           @ [(Return ''generateRollbackScript'' r, None)] \<and>
         files (snd (generateRollbackScript config backupFile options w)) =
           (if r = None then insert (filepath_Join [OutputDir options, ''rollback.sh'']) (files w)
            else files w) \<and>
         sublist (Format_2006_01_02_15_04_05 (clock w (length (trace w) + 2))) script \<and>
         sublist (Host config) script \<and> sublist (Port config) script \<and>
         sublist (Username config) script \<and> sublist (Database config) script \<and>
         sublist (SSLMode config) script \<and> sublist backupFile script)) \<and>
   generateRollbackScript (config\<lparr>Password := p\<rparr>) backupFile options w =
     generateRollbackScript config backupFile options w"
proof (intro conjI impI)
  assume a: "\<not> CreateBackup options \<or> backupFile = []"
  note e = generateRollbackScript_noop [OF a, of config w]
  show "fst (generateRollbackScript config backupFile options w) = None"
    by (simp add: e)
  show "events_since w (snd (generateRollbackScript config backupFile options w)) =
        [(Call ''generateRollbackScript'', None), (Return ''generateRollbackScript'' None, None)]"
    by (simp add: e events_since_def emit_def)
  show "files (snd (generateRollbackScript config backupFile options w)) = files w"
    by (simp add: e emit_def)
next
  assume a: "CreateBackup options \<and> backupFile \<noteq> []"
  define script where "script = rollbackScriptText
     (Format_2006_01_02_15_04_05 (clock w (length (trace w) + 2))) config backupFile"
  define r where "r = fst (generateRollbackScript config backupFile options w)"
  have 1: "r = respond w
               (trace w @ [(Call ''generateRollbackScript'', None),
                           (Log INFO (''Generating rollback script: ''
                              @ filepath_Join [OutputDir options, ''rollback.sh'']), None)])
               (WriteFile (filepath_Join [OutputDir options, ''rollback.sh'']) script 493)"
    using a unfolding r_def script_def
    by (simp add: generateRollbackScript_def called_def time_Now_def lib_defs split: option.split)
  have 2: "events_since w (snd (generateRollbackScript config backupFile options w)) =
           [(Call ''generateRollbackScript'', None),
            (Log INFO (''Generating rollback script: ''
               @ filepath_Join [OutputDir options, ''rollback.sh'']), None),
            (WriteFile (filepath_Join [OutputDir options, ''rollback.sh'']) script 493, r)]
           @ (if r = None
              then [(Log SUCCESS (''Rollback script created: ''
                       @ filepath_Join [OutputDir options, ''rollback.sh'']), None)]
              else [])
           @ [(Return ''generateRollbackScript'' r, None)]"
    using a unfolding r_def script_def
    by (simp add: generateRollbackScript_def called_def events_since_def time_Now_def lib_defs
        split: option.split)
  have 3: "files (snd (generateRollbackScript config backupFile options w)) =
           (if r = None then insert (filepath_Join [OutputDir options, ''rollback.sh'']) (files w)
            else files w)"
    using a unfolding r_def script_def
    by (simp add: generateRollbackScript_def called_def lib_defs split: option.split)
  note 4 = rollbackScriptText_embeds
         [where created = "Format_2006_01_02_15_04_05 (clock w (length (trace w) + 2))"
            and config = config and backupFile = backupFile, folded script_def]
  show "\<exists>script r.
         fst (generateRollbackScript config backupFile options w) = r \<and>
         r = respond w
               (trace w @ [(Call ''generateRollbackScript'', None),
                           (Log INFO (''Generating rollback script: ''
                              @ filepath_Join [OutputDir options, ''rollback.sh'']), None)])
               (WriteFile (filepath_Join [OutputDir options, ''rollback.sh'']) script 493) \<and>
         events_since w (snd (generateRollbackScript config backupFile options w)) =
           [(Call ''generateRollbackScript'', None),
            (Log INFO (''Generating rollback script: ''
               @ filepath_Join [OutputDir options, ''rollback.sh'']), None),
            (WriteFile (filepath_Join [OutputDir options, ''rollback.sh'']) script 493, r)]
           @ (if r = None
              then [(Log SUCCESS (''Rollback script created: ''
                       @ filepath_Join [OutputDir options, ''rollback.sh'']), None)]
              else [])
           @ [(Return ''generateRollbackScript'' r, None)] \<and>
         files (snd (generateRollbackScript config backupFile options w)) =
           (if r = None then insert (filepath_Join [OutputDir options, ''rollback.sh'']) (files w)
            else files w) \<and>
         sublist (Format_2006_01_02_15_04_05 (clock w (length (trace w) + 2))) script \<and>
         sublist (Host config) script \<and> sublist (Port config) script \<and>
         sublist (Username config) script \<and> sublist (Database config) script \<and>
         sublist (SSLMode config) script \<and> sublist backupFile script"
  proof (intro exI conjI)
    show "fst (generateRollbackScript config backupFile options w) = r"
      by (simp add: r_def)
  qed (rule 1 2 3 4)+
next
  show "generateRollbackScript (config\<lparr>Password := p\<rparr>) backupFile options w =
     generateRollbackScript config backupFile options w"
    by (rule generateRollbackScript_password)
qed

text \<open>
  Claim C6. Rollback-script generation is to be a no-op when no backup file was produced.
  The code does not do so when backups are enabled: the orchestrator hands the backup
  path it computed to \<open>generateRollbackScript\<close> whether or not the backup made a file. In
  a direct run with backups enabled, every outside action succeeding and the destination
  database absent, the run returns \<open>nil\<close>, the files it leaves are the exported schema and
  \<open>rollback.sh\<close>, and the backup file that the script restores from is not among them.
\<close>

theorem rollback_script_without_backup:
  "CreateBackup direct_options \<and>
   (maintenance_conn dest_config, Database dest_config) \<notin> catalog calm_world \<and>
   fst (performSchemaMigration source_config (Some dest_config) direct_options calm_world)
     = Return_value None \<and>
   files (snd (performSchemaMigration source_config (Some dest_config) direct_options calm_world))
     = {''out/schema_shop_prod_20240806_143022.sql'', ''out/rollback.sh''} \<and>
   backup_path direct_options dest_config calm_world
     = ''out/backup/backup_shop_staging_20240806_143022.sql'' \<and>
   ''out/backup/backup_shop_staging_20240806_143022.sql''
     \<notin> files (snd (performSchemaMigration source_config (Some dest_config) direct_options
                       calm_world))"
proof -
  have o: "obliging calm_world"
    by (simp add: obliging_def calm_world_def)
  have c: "CreateBackup direct_options" "\<not> DryRun direct_options"
    by (simp_all add: direct_options_def)
  have a: "(maintenance_conn dest_config, Database dest_config) \<notin> catalog calm_world"
    "files calm_world = {}"
    by (simp_all add: calm_world_def)
  have p: "backup_path direct_options dest_config calm_world \<noteq> []"
    by (simp add: paths)
  from run_without_backup [OF o a(1) c p, of source_config]
    performSchemaMigration_obliging [OF o c(2), of source_config dest_config] a c
  show ?thesis
    by (simp add: paths insert_commute)
qed

section \<open>Export mode (claim C1)\<close>

text \<open>
  Claim C1. A run in export mode is to produce the exported schema file only, attempt no
  connection to the destination server and exit with code 0. The code does not exit with
  code 0: with the flags of the scenario (mode \<open>export\<close>, source database \<open>reports\<close>, output
  directory \<open>./out\<close>) and every outside action succeeding, the destination configuration
  is \<open>nil\<close>, the run goes on after the export and panics where it reads \<open>dest.Database\<close>;
  the exit status is 2. The schema file is the one file written, and the one connection
  opened is to the source database.
\<close>

theorem export_mode_exit_status:
  "mode export_flags = ''export'' \<and> source_db export_flags = ''reports'' \<and>
   output_dir export_flags = ''./out'' \<and> obliging calm_world \<and>
   fst (runSchemaMigration export_flags calm_world) = Panics \<and>
   fst (exit_status export_flags calm_world) = 2 \<and>
   files (snd (exit_status export_flags calm_world))
     = {''out/schema_reports_20240806_143022.sql''} \<and>
   opened (events_since calm_world (snd (exit_status export_flags calm_world)))
     = [database_conn reports_config]"
proof -
  define w5 where "w5 = calm_world\<lparr>tty := [Inr ''dest-s3cret''],
          trace := [(Log INFO ''Starting PostgreSQL schema migration...'', None),
                    (Stdout ''Enter password for source database (app@prod.example.com): '', None),
                    (Stdout ''\<newline>'', None),
                    (Log INFO ''Validating source database connection...'', None),
                    (SqlOpen (database_conn reports_config), None),
                    (Ping (database_conn reports_config), None),
                    (Log INFO ''Source database connection successful'', None),
                    (Close (database_conn reports_config), None)]\<rparr>"
  define options where "options = direct_options\<lparr>Mode := ''export''\<rparr>"
  obtain r w6 where p: "performSchemaMigration reports_config None options w5 = (r, w6)"
    by (cases "performSchemaMigration reports_config None options w5")
  have o: "obliging w5"
    by (simp add: w5_def obliging_def calm_world_def)
  have sp: "schema_path options reports_config w5 = ''out/schema_reports_20240806_143022.sql''"
    by (simp add: schema_path_def run_timestamp_def time_Now_def Format_20060102_150405_def
        digits2_def digits4_def digit_def calm_world_def example_time_def direct_options_def
        reports_config_def filepath_Join.simps filepath_Clean_def options_def w5_def)
  from no_dest_panics [OF o, of reports_config options] p sp
  have r: "r = Panic" and f: "files w6 = {''out/schema_reports_20240806_143022.sql''}"
    by (simp_all add: w5_def calm_world_def)
  from no_dest_local [of w5 reports_config options] p
  have "adds (\<lambda>e. \<not> is_connection e) w5 w6"
    by simp
  then obtain evs where t: "trace w6 = trace w5 @ evs" and l: "list_all (\<lambda>e. \<not> is_connection e) evs"
    by (auto simp: adds_def)
  have m: "Mode options \<noteq> ''direct''"
    by (simp add: options_def)
  have run: "runSchemaMigration export_flags calm_world = (Panics, w6)"
    using p r m
    by (simp add: runSchemaMigration_def Let_def export_run_start export_run_validated
        w5_def [symmetric] options_def [symmetric])
  have "opened (events_since calm_world w6) = [database_conn reports_config]"
    using t opened_local [OF l]
    by (simp add: events_since_def calm_world_def w5_def opened_append)
  with run f o show ?thesis
    by (simp add: exit_status_def export_flags_def obliging_def calm_world_def)
qed

section \<open>Failures of recreate (claim C4)\<close>

text \<open>
  Claim C4, as the code has it. \<open>recreateDestinationDatabase\<close> composes
  \<open>dropDatabaseIfExists\<close> and \<open>createDatabase\<close>: it returns the error of the drop, without
  calling create, or else what create returns. The error is handed on unchanged, and the
  orchestrator labels it \<open>failed to recreate destination database\<close> whichever of the two
  steps failed. Where create fails after the drop returned \<open>nil\<close>, the destination
  database is absent afterwards; nothing in the value returned says so.
\<close>

theorem recreate_reports_first_error:
  "fst (recreateDestinationDatabase config w) =
     (case fst (dropDatabaseIfExists config (emit (Call ''recreateDestinationDatabase'') w)) of
        Some e \<Rightarrow> Some e
      | None \<Rightarrow>
          fst (createDatabase config
                 (snd (dropDatabaseIfExists config (emit (Call ''recreateDestinationDatabase'') w))))) \<and>
   (fst (dropDatabaseIfExists config (emit (Call ''recreateDestinationDatabase'') w)) = Some err \<longrightarrow>
      (Call ''createDatabase'', None)
        \<notin> set (events_since w (snd (recreateDestinationDatabase config w)))) \<and>
   (fst (dropDatabaseIfExists config (emit (Call ''recreateDestinationDatabase'') w)) = None \<and>
    fst (createDatabase config
           (snd (dropDatabaseIfExists config (emit (Call ''recreateDestinationDatabase'') w))))
      = Some err \<longrightarrow>
      fst (recreateDestinationDatabase config w) = Some err \<and>
      (maintenance_conn config, Database config)
        \<notin> catalog (snd (recreateDestinationDatabase config w))) \<and>
   (fst (recreateDestinationDatabase config w) = Some err \<longrightarrow>
      migrateSteps (Some config) schemaFile backupFile options w =
        (Return_value (Some (''failed to recreate destination database: '' @ err)),
         snd (recreateDestinationDatabase config w)))"
  using recreate_parts(1) [of config w] recreate_parts(2) [of config w err]
    recreate_parts(3) [of config w err]
    recreate_parts(4) [of config w err schemaFile backupFile options]
  by blast

theorem recreate_reports_first_error_witness:
  "fst (recreateDestinationDatabase dest_config drop_fails_world) = Some ''boom'' \<and>
   (Call ''createDatabase'', None)
     \<notin> set (events_since drop_fails_world
              (snd (recreateDestinationDatabase dest_config drop_fails_world))) \<and>
   fst (recreateDestinationDatabase dest_config create_fails_world) = Some ''boom'' \<and>
   (maintenance_conn dest_config, Database dest_config)
     \<notin> catalog (snd (recreateDestinationDatabase dest_config create_fails_world)) \<and>
   fst (migrateSteps (Some dest_config) ''out/schema.sql'' [] direct_options create_fails_world)
     = Return_value (Some ''failed to recreate destination database: boom'')"
  using recreate_reports_first_error
          [of dest_config drop_fails_world "''boom''" "''out/schema.sql''" "[]" direct_options]
    recreate_reports_first_error
          [of dest_config create_fails_world "''boom''" "''out/schema.sql''" "[]" direct_options]
    failing_worlds(1,2,3)
  by simp

text \<open>
  The claim as stated fails. With the destination database present, a \<open>DROP DATABASE\<close>
  that fails and a \<open>CREATE DATABASE\<close> that fails after the drop went through give the
  orchestrator the same error to return, with the same label, although the database is
  still there in the first case and lost in the second.
\<close>

theorem recreate_failure_counterexample:
  "(maintenance_conn dest_config, Database dest_config) \<in> catalog drop_fails_world \<and>
   (maintenance_conn dest_config, Database dest_config) \<in> catalog create_fails_world \<and>
   fst (migrateSteps (Some dest_config) ''out/schema.sql'' [] direct_options drop_fails_world)
     = Return_value (Some ''failed to recreate destination database: boom'') \<and>
   (maintenance_conn dest_config, Database dest_config)
     \<in> catalog (snd (migrateSteps (Some dest_config) ''out/schema.sql'' [] direct_options
                        drop_fails_world)) \<and>
   fst (dropDatabaseIfExists dest_config
          (emit (Call ''recreateDestinationDatabase'') create_fails_world)) = None \<and>
   fst (migrateSteps (Some dest_config) ''out/schema.sql'' [] direct_options create_fails_world)
     = Return_value (Some ''failed to recreate destination database: boom'') \<and>
   (maintenance_conn dest_config, Database dest_config)
     \<notin> catalog (snd (migrateSteps (Some dest_config) ''out/schema.sql'' [] direct_options
                        create_fails_world))"
proof -
  have s: "(maintenance_conn dest_config, Database dest_config) \<in> catalog drop_fails_world"
    "(maintenance_conn dest_config, Database dest_config) \<in> catalog create_fails_world"
    by (simp_all add: drop_fails_world_def create_fails_world_def staged_world_def)
  define wd where "wd = emit (Call ''recreateDestinationDatabase'') drop_fails_world"
  define wc where "wc = emit (Call ''recreateDestinationDatabase'') create_fails_world"
  obtain d1 where d1: "dropDatabaseIfExists dest_config wd = (Some ''boom'', d1)"
    using failing_worlds(1) by (cases "dropDatabaseIfExists dest_config wd") (simp add: wd_def)
  obtain r2 d2 where d2: "createDatabase dest_config d1 = (r2, d2)"
    by (cases "createDatabase dest_config d1")
  note ed = recreateDestinationDatabase_eq [OF d1 [unfolded wd_def] d2]
  from failing_worlds(4) d1 have cd: "(maintenance_conn dest_config, Database dest_config) \<in> catalog d1"
    by (simp add: wd_def)
  obtain c1 where c1: "dropDatabaseIfExists dest_config wc = (None, c1)"
    using failing_worlds(2) by (cases "dropDatabaseIfExists dest_config wc") (simp add: wc_def)
  obtain c2 where c2: "createDatabase dest_config c1 = (Some ''boom'', c2)"
    using failing_worlds(3) c1 by (cases "createDatabase dest_config c1") (simp add: wc_def)
  note ec = recreateDestinationDatabase_eq [OF c1 [unfolded wc_def] c2]
  from dropDatabaseIfExists_absent [of dest_config wc] c1
  have "(maintenance_conn dest_config, Database dest_config) \<notin> catalog c1"
    by simp
  moreover from createDatabase_failed [of dest_config c1 "''boom''"] c2
  have "catalog c2 = catalog c1"
    by simp
  ultimately have cc: "(maintenance_conn dest_config, Database dest_config) \<notin> catalog c2"
    by simp
  from s cd cc failing_worlds(2) show ?thesis
    by (simp add: migrateSteps_def ed ec catalog_emit)
qed

section \<open>A failing backup (claim C7)\<close>

text \<open>
  Claim C7. Take a run of \<open>performSchemaMigration\<close> that is not a dry run, with a
  destination configuration (direct mode) and backups enabled, in which the directories
  were created, the export returned \<open>nil\<close> and \<open>createDestinationBackup\<close> returned an error.
  The run does not end there: it is the rest of the migration (recreate, apply, rollback
  script) started after the warning \<open>Backup creation failed (continuing): <error>\<close>. In
  its events the return of the backup is followed by that warning and by the call of
  \<open>recreateDestinationDatabase\<close>; once recreate has returned \<open>nil\<close>, \<open>applySchema\<close> is
  called, and once apply has returned \<open>nil\<close> too, the run returns \<open>nil\<close>.
\<close>

theorem backup_failure_is_not_fatal:
  "\<not> DryRun options \<and> CreateBackup options \<and>
   createDirectories options w = (None, w1) \<and>
   exportSchema source (schema_path options source w) options w1 = (None, w2) \<and>
   createDestinationBackup d (backup_path options d w) options w2 = (Some err, w3) \<longrightarrow>
     performSchemaMigration source (Some d) options w =
       migrateSteps (Some d) (schema_path options source w) (backup_path options d w) options
         (logger_Warning (''Backup creation failed (continuing): '' @ err) w3) \<and>
     (\<exists>before rest.
        events_since w (snd (performSchemaMigration source (Some d) options w)) =
          before @ [(Return ''createDestinationBackup'' (Some err), None),
                    (Log WARNING (''Backup creation failed (continuing): '' @ err), None),
                    (Call ''recreateDestinationDatabase'', None)] @ rest) \<and>
     (fst (recreateDestinationDatabase d
             (logger_Warning (''Backup creation failed (continuing): '' @ err) w3)) = None \<longrightarrow>
        (Call ''applySchema'', None)
          \<in> set (events_since w (snd (performSchemaMigration source (Some d) options w))) \<and>
        (fst (applySchema d (schema_path options source w)
                (snd (recreateDestinationDatabase d
                        (logger_Warning (''Backup creation failed (continuing): '' @ err) w3))))
           = None \<longrightarrow>
           fst (performSchemaMigration source (Some d) options w) = Return_value None))"
proof (intro impI, elim conjE)
  assume n: "\<not> DryRun options" and cb: "CreateBackup options"
    and c: "createDirectories options w = (None, w1)"
    and e: "exportSchema source (schema_path options source w) options w1 = (None, w2)"
    and b: "createDestinationBackup d (backup_path options d w) options w2 = (Some err, w3)"
  note p = backup_failure_continues [OF n cb c e b]
  note ev = backup_failure_events [OF c e b, of "backup_path options d w"]
  note ap = backup_failure_applies [OF c e b, of "backup_path options d w"]
  note rt = migrateSteps_returns
    [of d "logger_Warning (''Backup creation failed (continuing): '' @ err) w3"
        "schema_path options source w" "backup_path options d w" options]
  show "performSchemaMigration source (Some d) options w =
       migrateSteps (Some d) (schema_path options source w) (backup_path options d w) options
         (logger_Warning (''Backup creation failed (continuing): '' @ err) w3) \<and>
     (\<exists>before rest.
        events_since w (snd (performSchemaMigration source (Some d) options w)) =
          before @ [(Return ''createDestinationBackup'' (Some err), None),
                    (Log WARNING (''Backup creation failed (continuing): '' @ err), None),
                    (Call ''recreateDestinationDatabase'', None)] @ rest) \<and>
     (fst (recreateDestinationDatabase d
             (logger_Warning (''Backup creation failed (continuing): '' @ err) w3)) = None \<longrightarrow>
        (Call ''applySchema'', None)
          \<in> set (events_since w (snd (performSchemaMigration source (Some d) options w))) \<and>
        (fst (applySchema d (schema_path options source w)
                (snd (recreateDestinationDatabase d
                        (logger_Warning (''Backup creation failed (continuing): '' @ err) w3))))
           = None \<longrightarrow>
           fst (performSchemaMigration source (Some d) options w) = Return_value None))"
    unfolding p using ev ap rt by blast
qed

theorem backup_failure_is_not_fatal_witness:
  "fst (performSchemaMigration source_config (Some dest_config) direct_options backup_fails_world)
     = Return_value None \<and>
   (\<exists>before rest.
      events_since backup_fails_world
        (snd (performSchemaMigration source_config (Some dest_config) direct_options
                backup_fails_world)) =
        before @ [(Return ''createDestinationBackup''
                     (Some ''backup pg_dump failed: exit status 1''), None),
                  (Log WARNING
                     ''Backup creation failed (continuing): backup pg_dump failed: exit status 1'',
                   None),
                  (Call ''recreateDestinationDatabase'', None)] @ rest) \<and>
   (Call ''applySchema'', None)
     \<in> set (events_since backup_fails_world
              (snd (performSchemaMigration source_config (Some dest_config) direct_options
                      backup_fails_world)))"
proof -
  define sp where "sp = schema_path direct_options source_config backup_fails_world"
  define w1 where "w1 = snd (createDirectories direct_options backup_fails_world)"
  define w2 where "w2 = snd (exportSchema source_config sp direct_options w1)"
  define w3 where "w3 = snd (createDestinationBackup dest_config example_backup_file direct_options w2)"
  define w4 where "w4 = logger_Warning
    (''Backup creation failed (continuing): '' @ ''backup pg_dump failed: exit status 1'') w3"
  note f = backup_fails_world_facts
  from createDirectories_dump_fails [OF f(1), of direct_options] f(2)
  have c: "createDirectories direct_options backup_fails_world = (None, w1)"
    and r1: "respond w1 = dump_fails"
    and c1: "(maintenance_conn dest_config, Database dest_config) \<in> catalog w1"
    by (simp_all add: w1_def prod_eq_iff)
  from exportSchema_dump_fails [OF r1, of source_config sp direct_options] c1
  have e: "exportSchema source_config sp direct_options w1 = (None, w2)"
    and r2: "respond w2 = dump_fails"
    and c2: "(maintenance_conn dest_config, Database dest_config) \<in> catalog w2"
    by (simp_all add: w2_def prod_eq_iff)
  from createDestinationBackup_dump_fails [OF r2 c2]
  have b: "createDestinationBackup dest_config example_backup_file direct_options w2
             = (Some ''backup pg_dump failed: exit status 1'', w3)"
    and r3: "respond w3 = dump_fails"
    by (simp_all add: w3_def prod_eq_iff)
  have r4: "respond w4 = dump_fails"
    using r3 by (simp add: w4_def logger_Warning_def emit_def)
  note re = recreateDestinationDatabase_dump_fails [OF r4, of dest_config]
  from applySchema_dump_fails [of "snd (recreateDestinationDatabase dest_config w4)" dest_config sp] re
  have a: "fst (applySchema dest_config sp (snd (recreateDestinationDatabase dest_config w4))) = None"
    by simp
  have o: "\<not> DryRun direct_options" "CreateBackup direct_options"
    by (simp_all add: direct_options_def)
  note t = backup_failure_is_not_fatal
         [where options = direct_options and w = backup_fails_world and ?w1.0 = w1
            and source = source_config and ?w2.0 = w2 and d = dest_config
            and err = "''backup pg_dump failed: exit status 1''" and ?w3.0 = w3]
  have h: "\<not> DryRun direct_options \<and> CreateBackup direct_options \<and>
     createDirectories direct_options backup_fails_world = (None, w1) \<and>
     exportSchema source_config (schema_path direct_options source_config backup_fails_world)
       direct_options w1 = (None, w2) \<and>
     createDestinationBackup dest_config (backup_path direct_options dest_config backup_fails_world)
       direct_options w2 = (Some ''backup pg_dump failed: exit status 1'', w3)"
    using o c e b by (simp add: sp_def f(3))
  note k = t [THEN mp, OF h]
  have re': "fst (recreateDestinationDatabase dest_config
                    (logger_Warning (''Backup creation failed (continuing): ''
                                     @ ''backup pg_dump failed: exit status 1'') w3)) = None"
    using re by (simp add: w4_def)
  note k3 = k [THEN conjunct2, THEN conjunct2, THEN mp, OF re']
  have a': "fst (applySchema dest_config (schema_path direct_options source_config backup_fails_world)
                   (snd (recreateDestinationDatabase dest_config
                           (logger_Warning (''Backup creation failed (continuing): ''
                                            @ ''backup pg_dump failed: exit status 1'') w3)))) = None"
    using a by (simp add: w4_def sp_def)
  note k4 = k3 [THEN conjunct2, THEN mp, OF a']
  note k2 = k [THEN conjunct2, THEN conjunct1]
  from k4 k2 k3 [THEN conjunct1] show ?thesis
    by simp
qed

section \<open>A destination database that does not exist (claim C8)\<close>




end
